theory Spec2Isabelle
  imports Complex_Main
begin

section \<open>The lap-data handler of the F1 Lap Replay API\<close>

text \<open>
  This theory embeds \<^verbatim>\<open>get_lap_data\<close> of \<^verbatim>\<open>src/main.py\<close>: the session loader with its
  retry, the lap selector, the telemetry reconciler, the coordinate normaliser and the
  response assembler, and the \<^verbatim>\<open>try/except\<close> that turns every exception other than an
  \<^verbatim>\<open>HTTPException\<close> into a status 500.

  The handler talks to two libraries. What it asks of them is modelled as follows.
  \<^item> FastF1 (the data provider) is a parameter: loading a session, filtering the laps of a
    driver, \<^verbatim>\<open>pick_fastest\<close> and the three stream accessors of a lap are fields of the
    records below, with no assumption on what they hold. An accessor that the handler
    calls can raise; the exception is the left summand and carries \<^verbatim>\<open>str(e)\<close>.
  \<^item> pandas and numpy are modelled by the operations the handler uses, on a data frame
    that is a list of column labels and a list of indexed rows.
  \<^item> A value of a frame is a real number or NaN. \<^verbatim>\<open>None\<close> stands for NaN (and for NaT in
    a time column): the values \<^verbatim>\<open>pd.isna\<close> accepts. Infinite values in the input are not
    modelled. The result of an arithmetic operation is a \<open>float\<close>: finite, an infinity or
    NaN. An operation whose exact result lies beyond the largest finite double overflows
    to an infinity, as IEEE arithmetic does; rounding within the finite range and signed
    zeros are not modelled.
  \<^item> Every call to the provider is logged, so that which source was asked, and in which
    order, is part of the result.
\<close>

subsection \<open>Exceptions\<close>

datatype exn =
    HTTPException nat string
  | KeyError string
  | IndexError string
  | TypeError string
  | ValueError string
  | ProviderError string

text \<open>
  \<^verbatim>\<open>str(e)\<close>, as the handler's last \<^verbatim>\<open>except\<close> clause uses it for the detail of a 500. The
  payload of a library exception is its message; Python's quoting of a \<^verbatim>\<open>KeyError\<close>'s key
  is not reproduced.
\<close>

fun str_exn :: "exn \<Rightarrow> string" where
  "str_exn (HTTPException code detail) = detail"
| "str_exn (KeyError m) = m"
| "str_exn (IndexError m) = m"
| "str_exn (TypeError m) = m"
| "str_exn (ValueError m) = m"
| "str_exn (ProviderError m) = m"

subsection \<open>Strings: \<^verbatim>\<open>str.lower\<close> and \<^verbatim>\<open>in\<close>\<close>

text \<open>\<^verbatim>\<open>lower\<close> on the ASCII letters; every other character is left as it is.\<close>

definition lower_char :: "char \<Rightarrow> char" where
  "lower_char c =
     (let n = (of_char c :: nat) in if 65 \<le> n \<and> n \<le> 90 then char_of (n + 32) else c)"

definition lower :: "string \<Rightarrow> string" where
  "lower s = map lower_char s"

text \<open>\<^verbatim>\<open>needle in hay\<close> for strings: \<open>needle\<close> occurs as a contiguous run of \<open>hay\<close>.\<close>

fun str_contains :: "string \<Rightarrow> string \<Rightarrow> bool" where
  "str_contains needle [] = (needle = [])"
| "str_contains needle (c # cs) =
     (take (length needle) (c # cs) = needle \<or> str_contains needle cs)"

subsection \<open>Floats with NaN\<close>

type_synonym cell = "real option"

definition notna :: "cell \<Rightarrow> bool" where
  "notna c = (c \<noteq> None)"

text \<open>NaN is unequal to everything, itself included, so \<^verbatim>\<open>!=\<close> is true on it.\<close>

fun fne :: "cell \<Rightarrow> cell \<Rightarrow> bool" where
  "fne (Some a) (Some b) = (a \<noteq> b)"
| "fne a b = True"

text \<open>
  What arithmetic on doubles returns. \<open>float_max\<close> is the largest finite double,
  \<open>(2^53 - 1) * 2^971\<close>. \<open>of_exact v\<close> is the double for an exact result \<open>v\<close>: an infinity
  when \<open>v\<close> lies beyond the finite range, \<open>v\<close> itself otherwise.
\<close>

datatype float = Finite real | PosInf | NegInf | NaN

definition float_max :: real where
  "float_max = (2 ^ 53 - 1) * 2 ^ 971"

definition of_exact :: "real \<Rightarrow> float" where
  "of_exact v = (if float_max < v then PosInf else if v < - float_max then NegInf else Finite v)"

text \<open>
  Subtraction of two values of a frame, as at lines 249, 250, 254 and 255: NaN when an
  operand is NaN, otherwise the difference, which can overflow.
\<close>

fun fsub :: "cell \<Rightarrow> cell \<Rightarrow> float" where
  "fsub (Some a) (Some b) = of_exact (a - b)"
| "fsub a b = NaN"

text \<open>
  Division of numpy floats, as at lines 254 and 255. A zero divisor gives an infinity or
  NaN with a warning, no exception; an infinity divided by an infinity is NaN, a finite
  value divided by an infinity is zero.
\<close>

fun fdiv :: "float \<Rightarrow> float \<Rightarrow> float" where
  "fdiv (Finite a) (Finite b) =
     (if b = 0 then (if a = 0 then NaN else if 0 < a then PosInf else NegInf)
      else of_exact (a / b))"
| "fdiv (Finite a) PosInf = Finite 0"
| "fdiv (Finite a) NegInf = Finite 0"
| "fdiv PosInf (Finite b) = (if b < 0 then NegInf else PosInf)"
| "fdiv NegInf (Finite b) = (if b < 0 then PosInf else NegInf)"
| "fdiv a b = NaN"

text \<open>\<^verbatim>\<open>int(v)\<close> of a float truncates towards zero.\<close>

definition trunc :: "real \<Rightarrow> int" where
  "trunc v = (if 0 \<le> v then \<lfloor>v\<rfloor> else \<lceil>v\<rceil>)"

subsection \<open>Data frames\<close>

type_synonym row = "string \<Rightarrow> cell"

text \<open>
  A frame has its column labels and its rows in order, each row with its index label.
  A row gives a value to every string; only the values at the frame's columns are part
  of the frame. \<^verbatim>\<open>df.empty\<close> holds when either axis has length zero.
\<close>

record frame =
  columns :: "string list"
  rows :: "(int \<times> row) list"

definition df_empty :: "frame \<Rightarrow> bool" where
  "df_empty df = (rows df = [] \<or> columns df = [])"

text \<open>\<^verbatim>\<open>row[c]\<close> for a row of a frame with columns \<open>cols\<close>.\<close>

definition getitem :: "string list \<Rightarrow> row \<Rightarrow> string \<Rightarrow> exn + cell" where
  "getitem cols r c = (if c \<in> set cols then Inr (r c) else Inl (KeyError c))"

text \<open>\<^verbatim>\<open>df[c].values\<close>: the column as an array, in row order.\<close>

definition column_values :: "frame \<Rightarrow> string \<Rightarrow> exn + cell list" where
  "column_values df c =
     (if c \<in> set (columns df) then Inr (map (\<lambda>ir. snd ir c) (rows df)) else Inl (KeyError c))"

text \<open>\<^verbatim>\<open>df[cols]\<close>: the projection on a list of columns; a missing label is a \<^verbatim>\<open>KeyError\<close>.\<close>

definition select_columns :: "frame \<Rightarrow> string list \<Rightarrow> exn + frame" where
  "select_columns df cols =
     (case filter (\<lambda>c. c \<notin> set (columns df)) cols of
        [] \<Rightarrow> Inr (df\<lparr>columns := cols\<rparr>)
      | m # ms \<Rightarrow> Inl (KeyError (concat (m # ms) @ '' not in index'')))"

text \<open>
  \<^verbatim>\<open>left.merge(right, left_index=True, right_index=True, how='inner')\<close>. Every pair of a
  left row and a right row with the same index label gives one row, in the order of the
  left frame. A label that both frames have as a column gets the suffix \<^verbatim>\<open>_x\<close> on the left
  and \<^verbatim>\<open>_y\<close> on the right.
\<close>

definition suffix_if :: "string list \<Rightarrow> string \<Rightarrow> string \<Rightarrow> string" where
  "suffix_if others sfx c = (if c \<in> set others then c @ sfx else c)"

definition joined_row :: "frame \<Rightarrow> frame \<Rightarrow> row \<Rightarrow> row \<Rightarrow> row" where
  "joined_row left right l r c =
     (case find (\<lambda>k. suffix_if (columns right) ''_x'' k = c) (columns left) of
        Some k \<Rightarrow> l k
      | None \<Rightarrow>
          (case find (\<lambda>k. suffix_if (columns left) ''_y'' k = c) (columns right) of
             Some k \<Rightarrow> r k
           | None \<Rightarrow> None))"

definition merge_inner :: "frame \<Rightarrow> frame \<Rightarrow> frame" where
  "merge_inner left right =
     \<lparr>columns = map (suffix_if (columns right) ''_x'') (columns left)
                @ map (suffix_if (columns left) ''_y'') (columns right),
      rows = concat (map (\<lambda>il. map (\<lambda>jr. (fst il, joined_row left right (snd il) (snd jr)))
                                   (filter (\<lambda>jr. fst jr = fst il) (rows right)))
                         (rows left))\<rparr>"

text \<open>
  \<^verbatim>\<open>ndarray.min()\<close> and \<^verbatim>\<open>ndarray.max()\<close>: NaN if the array holds a NaN, a \<^verbatim>\<open>ValueError\<close>
  on an empty array.
\<close>

definition np_min :: "cell list \<Rightarrow> exn + cell" where
  "np_min xs =
     (if xs = [] then Inl (ValueError ''zero-size array to reduction operation minimum which has no identity'')
      else if None \<in> set xs then Inr None
      else Inr (Some (Min (set (map the xs)))))"

definition np_max :: "cell list \<Rightarrow> exn + cell" where
  "np_max xs =
     (if xs = [] then Inl (ValueError ''zero-size array to reduction operation maximum which has no identity'')
      else if None \<in> set xs then Inr None
      else Inr (Some (Max (set (map the xs)))))"

text \<open>\<^verbatim>\<open>Series.max()\<close> skips NaN, and is NaN when nothing is left.\<close>

definition series_max :: "cell list \<Rightarrow> cell" where
  "series_max xs =
     (case filter notna xs of [] \<Rightarrow> None | v # vs \<Rightarrow> Some (Max (set (map the (v # vs)))))"

subsection \<open>The provider's objects\<close>

record event_info =
  EventName :: string
  Location :: string
  Country :: string

text \<open>
  A lap: its number, its time in seconds (\<open>None\<close> is NaT) and what its three accessors
  return or raise.
\<close>

record lap =
  LapNumber :: int
  LapTime :: "real option"
  get_telemetry :: "string + frame"
  get_pos_data :: "string + frame"
  get_car_data :: "string + frame"

text \<open>
  The laps of one driver: the records in order, and what \<^verbatim>\<open>pick_fastest()\<close> returns on
  them (\<open>None\<close> is Python's \<^verbatim>\<open>None\<close>).
\<close>

record laps =
  lap_rows :: "lap list"
  pick_fastest :: "lap option"

record session =
  pick_drivers :: "string \<Rightarrow> laps"
  event :: event_info

text \<open>The keyword arguments of \<^verbatim>\<open>Session.load\<close>; \<open>None\<close> is a keyword that is not passed.\<close>

record load_kwargs =
  kw_telemetry :: bool
  kw_laps :: bool
  kw_weather :: "bool option"
  kw_messages :: "bool option"

definition full_load :: load_kwargs where
  "full_load = \<lparr>kw_telemetry = True, kw_laps = True, kw_weather = Some False, kw_messages = Some False\<rparr>"

definition reduced_load :: load_kwargs where
  "reduced_load = \<lparr>kw_telemetry = True, kw_laps = True, kw_weather = None, kw_messages = None\<rparr>"

text \<open>\<^verbatim>\<open>get_session(year, round, session)\<close> followed by \<^verbatim>\<open>load(...)\<close>.\<close>

type_synonym provider = "int \<Rightarrow> int \<Rightarrow> string \<Rightarrow> load_kwargs \<Rightarrow> string + session"

datatype call = SessionLoad load_kwargs | GetTelemetry | GetPosData | GetCarData

subsection \<open>Results with a log of provider calls\<close>

type_synonym 'a logged = "call list \<times> (exn + 'a)"

definition bind_logged :: "'a logged \<Rightarrow> ('a \<Rightarrow> 'b logged) \<Rightarrow> 'b logged" where
  "bind_logged m f =
     (case snd m of
        Inl e \<Rightarrow> (fst m, Inl e)
      | Inr v \<Rightarrow> (fst m @ fst (f v), snd (f v)))"

definition bind_exn :: "exn + 'a \<Rightarrow> ('a \<Rightarrow> exn + 'b) \<Rightarrow> exn + 'b" where
  "bind_exn m f = (case m of Inl e \<Rightarrow> Inl e | Inr v \<Rightarrow> f v)"

subsection \<open>The response\<close>

record TelemetryPoint =
  tp_x :: float
  tp_y :: float
  speed :: cell
  throttle :: cell
  brake :: cell
  gear :: int
  rpm :: cell
  drs :: int
  distance :: cell
  time :: cell

record track_info =
  track_name :: string
  track_location :: string
  track_country :: string
  x_bounds :: "cell \<times> cell"
  y_bounds :: "cell \<times> cell"
  total_distance :: cell

text \<open>
  \<open>resp_lap_time\<close> is the lap's time; its rendering by \<^verbatim>\<open>str\<close> is pandas' and is not
  modelled.
\<close>

record LapDataResponse =
  resp_driver :: string
  resp_lap_number :: int
  resp_lap_time :: real
  resp_telemetry :: "TelemetryPoint list"
  resp_track_info :: track_info

subsection \<open>Session loader (lines 139 to 149)\<close>

definition transient :: "string \<Rightarrow> bool" where
  "transient e = (str_contains ''ergast'' (lower e) \<or> str_contains ''timeout'' (lower e))"

definition load_session :: "provider \<Rightarrow> int \<Rightarrow> int \<Rightarrow> string \<Rightarrow> session logged" where
  "load_session fetch year rnd sess =
     (case fetch year rnd sess full_load of
        Inr s \<Rightarrow> ([SessionLoad full_load], Inr s)
      | Inl e \<Rightarrow>
          if transient e
          then ([SessionLoad full_load, SessionLoad reduced_load],
                case fetch year rnd sess reduced_load of
                  Inr s \<Rightarrow> Inr s
                | Inl e2 \<Rightarrow> Inl (ProviderError e2))
          else ([SessionLoad full_load], Inl (ProviderError e)))"

subsection \<open>Lap selector (lines 152 to 170)\<close>

text \<open>\<^verbatim>\<open>if lap_number:\<close> on an \<^verbatim>\<open>Optional[int]\<close>: false on \<^verbatim>\<open>None\<close> and on zero.\<close>

fun truthy :: "int option \<Rightarrow> bool" where
  "truthy None = False"
| "truthy (Some n) = (n \<noteq> 0)"

text \<open>
  \<^verbatim>\<open>driver_laps[driver_laps['LapNumber'] == lap_number].iloc[0]\<close>, or \<^verbatim>\<open>pick_fastest()\<close>.
\<close>

definition select_lap :: "laps \<Rightarrow> int option \<Rightarrow> exn + lap option" where
  "select_lap driver_laps lap_number =
     (if truthy lap_number
      then (case filter (\<lambda>l. LapNumber l = the lap_number) (lap_rows driver_laps) of
              [] \<Rightarrow> Inl (IndexError ''single positional indexer is out-of-bounds'')
            | l # ls \<Rightarrow> Inr (Some l))
      else Inr (pick_fastest driver_laps))"

text \<open>
  \<^verbatim>\<open>pd.isna(lap['LapTime'])\<close>: subscripting \<^verbatim>\<open>None\<close> is a \<^verbatim>\<open>TypeError\<close>, a lap without a time
  is a 404.
\<close>

definition check_lap_time :: "lap option \<Rightarrow> exn + lap" where
  "check_lap_time sel =
     (case sel of
        None \<Rightarrow> Inl (TypeError ''NoneType object is not subscriptable'')
      | Some l \<Rightarrow>
          if LapTime l = None
          then Inl (HTTPException 404 ''Selected lap has no valid lap time'')
          else Inr l)"

definition choose_lap :: "session \<Rightarrow> string \<Rightarrow> int option \<Rightarrow> exn + lap" where
  "choose_lap f1_session driver lap_number =
     (let driver_laps = pick_drivers f1_session driver in
      if lap_rows driver_laps = []
      then Inl (HTTPException 404 (''No laps found for driver '' @ driver))
      else bind_exn (select_lap driver_laps lap_number) check_lap_time)"

subsection \<open>Telemetry reconciler (lines 175 to 231)\<close>

definition has_xy :: "frame \<Rightarrow> bool" where
  "has_xy df = (''X'' \<in> set (columns df) \<and> ''Y'' \<in> set (columns df))"

definition yields_xy :: "frame \<Rightarrow> bool" where
  "yields_xy df = (\<not> df_empty df \<and> has_xy df)"

text \<open>
  Lines 191 to 219: the position source. An exception of \<^verbatim>\<open>get_pos_data\<close> is a 404 at
  once; one of \<^verbatim>\<open>get_car_data\<close> is logged and swallowed.
\<close>

definition choose_position :: "lap \<Rightarrow> frame logged" where
  "choose_position l =
     (case get_pos_data l of
        Inl e \<Rightarrow> ([GetPosData], Inl (HTTPException 404 ''No position data available for this lap''))
      | Inr pos_data \<Rightarrow>
          if yields_xy pos_data then ([GetPosData], Inr pos_data)
          else (case get_car_data l of
                  Inr car_data \<Rightarrow>
                    if yields_xy car_data then ([GetPosData, GetCarData], Inr car_data)
                    else ([GetPosData, GetCarData], Inl (HTTPException 404
                      ''No position data (X, Y coordinates) available for this lap. Try a different session (Qualifying often has better data).''))
                | Inl e \<Rightarrow> ([GetPosData, GetCarData], Inl (HTTPException 404
                      ''No position data (X, Y coordinates) available for this lap. Try a different session (Qualifying often has better data).''))))"

definition pos_columns :: "frame \<Rightarrow> frame \<Rightarrow> string list" where
  "pos_columns telemetry pos_data =
     [''X'', ''Y'', ''Z'']
     @ (if ''Distance'' \<in> set (columns pos_data) \<and> ''Distance'' \<notin> set (columns telemetry)
        then [''Distance''] else [])"

definition merge_position :: "frame \<Rightarrow> frame \<Rightarrow> exn + frame" where
  "merge_position telemetry pos_data =
     bind_exn (select_columns pos_data (pos_columns telemetry pos_data))
       (\<lambda>projected. Inr (merge_inner telemetry projected))"

definition reconcile :: "lap \<Rightarrow> frame \<Rightarrow> frame logged" where
  "reconcile l telemetry =
     (if has_xy telemetry then ([], Inr telemetry)
      else bind_logged (choose_position l)
             (\<lambda>pos_data. ([], merge_position telemetry pos_data)))"

definition fetch_telemetry :: "lap \<Rightarrow> frame logged" where
  "fetch_telemetry l =
     (case get_telemetry l of
        Inl e \<Rightarrow> ([GetTelemetry], Inl (ProviderError e))
      | Inr telemetry \<Rightarrow>
          if df_empty telemetry
          then ([GetTelemetry], Inl (HTTPException 404 ''No telemetry data available for this lap''))
          else ([GetTelemetry], Inr telemetry))"

subsection \<open>Normaliser (lines 233 to 276)\<close>

text \<open>\<^verbatim>\<open>x_max - x_min if x_max != x_min else 1\<close>.\<close>

definition axis_range :: "cell \<Rightarrow> cell \<Rightarrow> float" where
  "axis_range lo hi = (if fne hi lo then fsub hi lo else Finite 1)"

text \<open>\<^verbatim>\<open>float(v) if pd.notna(v) else 0.0\<close> and \<^verbatim>\<open>int(v) if pd.notna(v) else 0\<close>.\<close>

definition float_or_zero :: "cell \<Rightarrow> cell" where
  "float_or_zero c = (if notna c then c else Some 0)"

definition int_or_zero :: "cell \<Rightarrow> int" where
  "int_or_zero c = (if notna c then trunc (the c) else 0)"

text \<open>
  Lines 258 to 262. The labels of a row are the columns of the frame, so the \<^verbatim>\<open>elif\<close> is
  reached exactly when the column is there and the value is NaN.
\<close>

definition distance_val :: "string list \<Rightarrow> row \<Rightarrow> cell" where
  "distance_val cols r =
     (if ''Distance'' \<in> set cols \<and> notna (r ''Distance'') then r ''Distance''
      else if ''Distance'' \<in> set cols then r ''Distance''
      else Some 0)"

text \<open>The body of the loop, lines 254 to 275, for one row.\<close>

definition telemetry_point ::
  "string list \<Rightarrow> cell \<Rightarrow> float \<Rightarrow> cell \<Rightarrow> float \<Rightarrow> row \<Rightarrow> exn + TelemetryPoint" where
  "telemetry_point cols x_min x_range y_min y_range r =
     bind_exn (getitem cols r ''X'') (\<lambda>X.
     bind_exn (getitem cols r ''Y'') (\<lambda>Y.
     bind_exn (getitem cols r ''Speed'') (\<lambda>Speed.
     bind_exn (getitem cols r ''Throttle'') (\<lambda>Throttle.
     bind_exn (getitem cols r ''Brake'') (\<lambda>Brake.
     bind_exn (getitem cols r ''nGear'') (\<lambda>nGear.
     bind_exn (getitem cols r ''RPM'') (\<lambda>RPM.
     bind_exn (getitem cols r ''DRS'') (\<lambda>DRS.
     bind_exn (getitem cols r ''Time'') (\<lambda>Time.
       Inr \<lparr>tp_x = fdiv (fsub X x_min) x_range,
            tp_y = fdiv (fsub Y y_min) y_range,
            speed = float_or_zero Speed,
            throttle = float_or_zero Throttle,
            brake = float_or_zero Brake,
            gear = int_or_zero nGear,
            rpm = float_or_zero RPM,
            drs = int_or_zero DRS,
            distance = distance_val cols r,
            time = float_or_zero Time\<rparr>)))))))))"

text \<open>The loop: \<^verbatim>\<open>for idx, row in merged_data.iterrows()\<close>, appending one point per row.\<close>

fun points_loop :: "(row \<Rightarrow> exn + TelemetryPoint) \<Rightarrow> (int \<times> row) list \<Rightarrow> TelemetryPoint list
    \<Rightarrow> exn + TelemetryPoint list" where
  "points_loop f [] telemetry_points = Inr telemetry_points"
| "points_loop f (ir # irs) telemetry_points =
     (case f (snd ir) of
        Inl e \<Rightarrow> Inl e
      | Inr point \<Rightarrow> points_loop f irs (telemetry_points @ [point]))"

record bounds =
  x_min :: cell
  x_max :: cell
  y_min :: cell
  y_max :: cell

definition coordinate_bounds :: "frame \<Rightarrow> exn + bounds" where
  "coordinate_bounds merged_data =
     bind_exn (column_values merged_data ''X'') (\<lambda>x_coords.
     bind_exn (column_values merged_data ''Y'') (\<lambda>y_coords.
     bind_exn (np_min x_coords) (\<lambda>xmin.
     bind_exn (np_max x_coords) (\<lambda>xmax.
     bind_exn (np_min y_coords) (\<lambda>ymin.
     bind_exn (np_max y_coords) (\<lambda>ymax.
       Inr \<lparr>x_min = xmin, x_max = xmax, y_min = ymin, y_max = ymax\<rparr>))))))"

definition normalize :: "frame \<Rightarrow> exn + (bounds \<times> TelemetryPoint list)" where
  "normalize merged_data =
     (if df_empty merged_data
      then Inl (HTTPException 404 ''Could not merge telemetry with position data'')
      else bind_exn (coordinate_bounds merged_data) (\<lambda>b.
           bind_exn (points_loop
                       (telemetry_point (columns merged_data)
                          (x_min b) (axis_range (x_min b) (x_max b))
                          (y_min b) (axis_range (y_min b) (y_max b)))
                       (rows merged_data) [])
             (\<lambda>telemetry_points. Inr (b, telemetry_points))))"

subsection \<open>Response assembler (lines 279 to 298)\<close>

definition total_distance_of :: "frame \<Rightarrow> cell" where
  "total_distance_of merged_data =
     (if ''Distance'' \<in> set (columns merged_data)
      then series_max (map (\<lambda>ir. snd ir ''Distance'') (rows merged_data))
      else Some 0)"

definition build_response :: "session \<Rightarrow> string \<Rightarrow> lap \<Rightarrow> frame \<Rightarrow> exn + LapDataResponse" where
  "build_response f1_session driver l merged_data =
     bind_exn (normalize merged_data) (\<lambda>(b, telemetry_points).
       Inr \<lparr>resp_driver = driver,
            resp_lap_number = LapNumber l,
            resp_lap_time = the (LapTime l),
            resp_telemetry = telemetry_points,
            resp_track_info =
              \<lparr>track_name = EventName (event f1_session),
               track_location = Location (event f1_session),
               track_country = Country (event f1_session),
               x_bounds = (x_min b, x_max b),
               y_bounds = (y_min b, y_max b),
               total_distance = total_distance_of merged_data\<rparr>\<rparr>)"

subsection \<open>The handler\<close>

text \<open>The body of the outer \<^verbatim>\<open>try\<close>, lines 136 to 302.\<close>

definition lap_data_body ::
  "provider \<Rightarrow> int \<Rightarrow> int \<Rightarrow> string \<Rightarrow> string \<Rightarrow> int option \<Rightarrow> LapDataResponse logged" where
  "lap_data_body fetch year rnd sess driver lap_number =
     bind_logged (load_session fetch year rnd sess) (\<lambda>f1_session.
     bind_logged ([], choose_lap f1_session driver lap_number) (\<lambda>l.
     bind_logged (fetch_telemetry l) (\<lambda>telemetry.
     bind_logged (reconcile l telemetry) (\<lambda>merged_data.
       ([], build_response f1_session driver l merged_data)))))"

text \<open>
  Lines 304 to 308: an \<^verbatim>\<open>HTTPException\<close> is raised again, any other exception becomes a
  500 with its text.
\<close>

fun to_http :: "exn \<Rightarrow> exn" where
  "to_http (HTTPException code detail) = HTTPException code detail"
| "to_http e = HTTPException 500 (str_exn e)"

definition get_lap_data ::
  "provider \<Rightarrow> int \<Rightarrow> int \<Rightarrow> string \<Rightarrow> string \<Rightarrow> int option \<Rightarrow> LapDataResponse logged" where
  "get_lap_data fetch year rnd sess driver lap_number =
     (case lap_data_body fetch year rnd sess driver lap_number of
        (calls, Inl e) \<Rightarrow> (calls, Inl (to_http e))
      | (calls, Inr response) \<Rightarrow> (calls, Inr response))"

subsection \<open>Notions the statements use\<close>

text \<open>
  The labels of the dynamics fields of a telemetry sample, and the labels the loop reads
  from every row: those and the two coordinates. A frame that lacks one of them makes the
  first iteration raise a \<^verbatim>\<open>KeyError\<close>.
\<close>

definition dynamics :: "string list" where
  "dynamics = [''Speed'', ''Throttle'', ''Brake'', ''nGear'', ''RPM'', ''DRS'', ''Time'']"

definition required_columns :: "string list" where
  "required_columns = [''X'', ''Y'', ''Speed'', ''Throttle'', ''Brake'', ''nGear'', ''RPM'', ''DRS'', ''Time'']"

text \<open>The calls that load a session, among the calls of a log.\<close>

fun is_session_load :: "call \<Rightarrow> bool" where
  "is_session_load (SessionLoad kw) = True"
| "is_session_load c = False"


subsection \<open>Example inputs\<close>

text \<open>
  Concrete frames, laps and providers, on which the statements below are evaluated.
  \<open>frame_of\<close> builds a frame from its column labels and, per row, the index label and
  the values in column order. \<open>ex_provider\<close> always loads a session in which the driver
  \<^verbatim>\<open>VER\<close> has the given laps and \<^verbatim>\<open>pick_fastest\<close> returns the given lap;
  \<open>ex_provider_flaky\<close> raises on the full request and answers the reduced one.
\<close>

definition row_of :: "string list \<Rightarrow> cell list \<Rightarrow> row" where
  "row_of cols vals c = (case map_of (zip cols vals) c of Some v \<Rightarrow> v | None \<Rightarrow> None)"

definition frame_of :: "string list \<Rightarrow> (int \<times> cell list) list \<Rightarrow> frame" where
  "frame_of cols data = \<lparr>columns = cols, rows = map (\<lambda>iv. (fst iv, row_of cols (snd iv))) data\<rparr>"

definition ex_telemetry_xy :: frame where
  "ex_telemetry_xy = frame_of ([''X'', ''Y''] @ dynamics @ [''Distance''])
     [(0, [Some 10, Some 5, Some 200, Some 100, Some 0, Some 7, Some 11000, None, Some 0, Some 0]),
      (1, [Some 30, Some 5, None, Some 50, Some 1, None, Some 9000, Some 1, Some (1/2), Some 40]),
      (2, [Some 20, Some 5, Some 180, None, Some 0, Some 6, None, Some 0, None, Some 75])]"

definition ex_telemetry_plain :: frame where
  "ex_telemetry_plain = frame_of dynamics
     [(0, [Some 200, Some 100, Some 0, Some 7, Some 11000, Some 0, Some 0]),
      (1, [Some 210, Some 100, Some 0, Some 7, Some 11500, Some 0, Some (1/4)]),
      (2, [Some 220, Some 90, Some 0, Some 8, Some 10000, Some 1, Some (1/2)])]"

definition ex_pos :: frame where
  "ex_pos = frame_of [''X'', ''Y'', ''Z'', ''Distance'']
     [(1, [Some 100, Some (-50), Some 3, Some 15]),
      (2, [Some 300, Some 150, Some 3, Some 30]),
      (3, [Some 500, Some 50, Some 3, Some 45])]"

definition ex_pos_no_z :: frame where
  "ex_pos_no_z = frame_of [''X'', ''Y'']
     [(0, [Some 100, Some 50]), (1, [Some 300, Some 150])]"

definition ex_car_no_xy :: frame where
  "ex_car_no_xy = frame_of [''Speed'', ''RPM''] [(0, [Some 200, Some 11000])]"

definition ex_telemetry_dup :: frame where
  "ex_telemetry_dup = frame_of dynamics
     [(0, [Some 200, Some 100, Some 0, Some 7, Some 11000, Some 0, Some 0]),
      (0, [Some 210, Some 100, Some 0, Some 7, Some 11500, Some 0, Some (1/4)])]"

definition ex_pos_dup :: frame where
  "ex_pos_dup = frame_of [''X'', ''Y'', ''Z'']
     [(0, [Some 100, Some 50, Some 3]), (0, [Some 300, Some 150, Some 3])]"



definition ex_telemetry_nan_distance :: frame where
  "ex_telemetry_nan_distance = frame_of ([''X'', ''Y''] @ dynamics @ [''Distance''])
     [(0, [Some 10, Some 5, Some 200, Some 100, Some 0, Some 7, Some 11000, Some 0, Some 0, None]),
      (1, [Some 30, Some 8, Some 210, Some 50, Some 1, Some 7, Some 9000, Some 1, Some (1/2), Some 40])]"

definition not_loaded :: "string + frame" where
  "not_loaded = Inl ''not loaded''"

definition ex_lap :: "int \<Rightarrow> real option \<Rightarrow> string + frame \<Rightarrow> string + frame \<Rightarrow> string + frame \<Rightarrow> lap" where
  "ex_lap n t tel pos car =
     \<lparr>LapNumber = n, LapTime = t, get_telemetry = tel, get_pos_data = pos, get_car_data = car\<rparr>"

definition ex_lap0 :: lap where
  "ex_lap0 = ex_lap 0 (Some 120) (Inr ex_telemetry_xy) not_loaded not_loaded"

definition ex_lap1 :: lap where
  "ex_lap1 = ex_lap 1 (Some (181 / 2)) (Inr ex_telemetry_xy) not_loaded not_loaded"

definition ex_lap2 :: lap where
  "ex_lap2 = ex_lap 2 (Some 91) (Inr ex_telemetry_plain) (Inr ex_pos) not_loaded"

definition ex_lap3 :: lap where
  "ex_lap3 = ex_lap 3 None (Inr ex_telemetry_xy) not_loaded not_loaded"

definition ex_lap4 :: lap where
  "ex_lap4 = ex_lap 4 (Some 92) (Inr ex_telemetry_plain) (Inl ''no position stream'') (Inr ex_pos)"

definition ex_lap5 :: lap where
  "ex_lap5 = ex_lap 5 (Some 93) (Inr ex_telemetry_plain) (Inr ex_car_no_xy) (Inr ex_car_no_xy)"

definition ex_lap6 :: lap where
  "ex_lap6 = ex_lap 6 (Some 94) (Inr ex_telemetry_plain) (Inr ex_pos_no_z) not_loaded"

definition ex_lap7 :: lap where
  "ex_lap7 = ex_lap 7 (Some 95) (Inr ex_telemetry_dup) (Inr ex_pos_dup) not_loaded"

definition ex_lap9 :: lap where
  "ex_lap9 = ex_lap 9 (Some 97) (Inr ex_telemetry_nan_distance) not_loaded not_loaded"

definition ex_laps :: "lap list \<Rightarrow> lap option \<Rightarrow> string \<Rightarrow> laps" where
  "ex_laps ls fastest d =
     (if d = ''VER'' then \<lparr>lap_rows = ls, pick_fastest = fastest\<rparr>
      else \<lparr>lap_rows = [], pick_fastest = None\<rparr>)"

definition ex_session :: "lap list \<Rightarrow> lap option \<Rightarrow> session" where
  "ex_session ls fastest =
     \<lparr>pick_drivers = ex_laps ls fastest,
      event = \<lparr>EventName = ''Bahrain Grand Prix'', Location = ''Sakhir'', Country = ''Bahrain''\<rparr>\<rparr>"

definition ex_provider :: "lap list \<Rightarrow> lap option \<Rightarrow> provider" where
  "ex_provider ls fastest year rnd sess kw = Inr (ex_session ls fastest)"

definition ex_provider_flaky :: "string \<Rightarrow> string + session \<Rightarrow> provider" where
  "ex_provider_flaky first second year rnd sess kw =
     (case kw_weather kw of Some w \<Rightarrow> Inl first | None \<Rightarrow> second)"

section \<open>Basic facts\<close>

lemma bind_exn_simps [simp]:
  "bind_exn (Inl e) f = Inl e" "bind_exn (Inr v) f = f v"
  by (simp_all add: bind_exn_def)

lemma bind_logged_simps [simp]:
  "bind_logged (cs, Inl e) f = (cs, Inl e)"
  "bind_logged (cs, Inr v) f = (cs @ fst (f v), snd (f v))"
  by (simp_all add: bind_logged_def)

lemma bind_exn_Inr_iff:
  "bind_exn m f = Inr w \<longleftrightarrow> (\<exists>v. m = Inr v \<and> f v = Inr w)"
  by (cases m) simp_all

lemma take_eq_iff_prefix: "take (length n) h = n \<longleftrightarrow> (\<exists>ss. h = n @ ss)"
proof
  assume "take (length n) h = n"
  then have "h = n @ drop (length n) h" by (metis append_take_drop_id)
  then show "\<exists>ss. h = n @ ss" ..
next
  assume "\<exists>ss. h = n @ ss"
  then show "take (length n) h = n" by auto
qed

lemma str_contains_iff: "str_contains n h \<longleftrightarrow> (\<exists>ps ss. h = ps @ n @ ss)"
proof (induction h)
  case Nil
  then show ?case by auto
next
  case (Cons c cs)
  have "(\<exists>ps ss. c # cs = ps @ n @ ss) \<longleftrightarrow> (\<exists>ss. c # cs = n @ ss) \<or> (\<exists>ps ss. cs = ps @ n @ ss)"
  proof
    assume "\<exists>ps ss. c # cs = ps @ n @ ss"
    then obtain ps ss where e: "c # cs = ps @ n @ ss" by blast
    show "(\<exists>ss. c # cs = n @ ss) \<or> (\<exists>ps ss. cs = ps @ n @ ss)"
    proof (cases ps)
      case Nil
      with e show ?thesis by auto
    next
      case (Cons p ps')
      with e have "cs = ps' @ n @ ss" by simp
      then show ?thesis by blast
    qed
  next
    assume "(\<exists>ss. c # cs = n @ ss) \<or> (\<exists>ps ss. cs = ps @ n @ ss)"
    then show "\<exists>ps ss. c # cs = ps @ n @ ss"
    proof
      assume "\<exists>ss. c # cs = n @ ss"
      then obtain ss where "c # cs = [] @ n @ ss" by auto
      then show ?thesis by blast
    next
      assume "\<exists>ps ss. cs = ps @ n @ ss"
      then obtain ps ss where "c # cs = (c # ps) @ n @ ss" by auto
      then show ?thesis by blast
    qed
  qed
  then show ?case using Cons.IH take_eq_iff_prefix[of n "c # cs"] by simp
qed

lemma points_loop_Inr:
  "points_loop f irs acc = Inr pts \<Longrightarrow>
     \<exists>ps. pts = acc @ ps \<and> length ps = length irs \<and>
       (\<forall>k<length irs. f (snd (irs ! k)) = Inr (ps ! k))"
proof (induction irs arbitrary: acc)
  case Nil
  then show ?case by simp
next
  case (Cons ir irs)
  from Cons.prems obtain p where p: "f (snd ir) = Inr p"
    and rest: "points_loop f irs (acc @ [p]) = Inr pts"
    by (auto split: sum.splits)
  from Cons.IH[OF rest] obtain ps where ps: "pts = (acc @ [p]) @ ps" "length ps = length irs"
    and each: "\<forall>k<length irs. f (snd (irs ! k)) = Inr (ps ! k)"
    by blast
  have "\<forall>k<length (ir # irs). f (snd ((ir # irs) ! k)) = Inr ((p # ps) ! k)"
  proof (intro allI impI)
    fix k assume "k < length (ir # irs)"
    then show "f (snd ((ir # irs) ! k)) = Inr ((p # ps) ! k)"
      using p each by (cases k) simp_all
  qed
  with ps have "pts = acc @ (p # ps) \<and> length (p # ps) = length (ir # irs) \<and>
     (\<forall>k<length (ir # irs). f (snd ((ir # irs) ! k)) = Inr ((p # ps) ! k))"
    by simp
  then show ?case by blast
qed

lemma points_loop_total:
  "(\<And>ir. ir \<in> set irs \<Longrightarrow> f (snd ir) = Inr (g (snd ir))) \<Longrightarrow>
     points_loop f irs acc = Inr (acc @ map (\<lambda>ir. g (snd ir)) irs)"
  by (induction irs arbitrary: acc) simp_all

lemma fst_bind_logged:
  "fst (bind_logged m f) = fst m @ (case snd m of Inl e \<Rightarrow> [] | Inr v \<Rightarrow> fst (f v))"
  by (cases m, cases "snd m") (simp_all add: bind_logged_def)

lemma fst_get_lap_data:
  "fst (get_lap_data fetch year rnd sess driver lap_number) = fst (lap_data_body fetch year rnd sess driver lap_number)"
  by (simp add: get_lap_data_def split: prod.splits sum.splits)

lemma snd_get_lap_data:
  "snd (get_lap_data fetch year rnd sess driver lap_number) =
     map_sum to_http id (snd (lap_data_body fetch year rnd sess driver lap_number))"
  by (simp add: get_lap_data_def split: prod.splits sum.splits)

lemma fst_fetch_telemetry [simp]: "fst (fetch_telemetry l) = [GetTelemetry]"
  by (simp add: fetch_telemetry_def split: sum.splits)

lemma fst_choose_position: "fst (choose_position l) = [GetPosData] \<or> fst (choose_position l) = [GetPosData, GetCarData]"
  by (simp add: choose_position_def split: sum.splits)

lemma fst_reconcile:
  "fst (reconcile l telemetry) = (if has_xy telemetry then [] else fst (choose_position l))"
  by (simp add: reconcile_def fst_bind_logged split: sum.splits)

lemma no_load_in_reconcile: "filter is_session_load (fst (reconcile l telemetry)) = []"
  using fst_choose_position[of l] by (auto simp: fst_reconcile)

lemma later_calls:
  "filter is_session_load (fst (get_lap_data fetch year rnd sess driver lap_number))
     = filter is_session_load (fst (load_session fetch year rnd sess))"
  by (simp add: fst_get_lap_data lap_data_body_def fst_bind_logged no_load_in_reconcile split: sum.splits)

lemma get_lap_data_load_failed:
  "load_session fetch year rnd sess = (cs, Inl e) \<Longrightarrow>
     get_lap_data fetch year rnd sess driver lap_number = (cs, Inl (to_http e))"
  by (simp add: get_lap_data_def lap_data_body_def)

section \<open>Session loader\<close>

text \<open>
  C8. When the first load raises, the reduced request (telemetry and laps, no weather or
  messages keyword) is issued if and only if the lower-cased error text contains
  \<^verbatim>\<open>ergast\<close> or \<^verbatim>\<open>timeout\<close>, and then exactly once: the log holds the full request
  followed by the reduced one. Any other first error, and an error of the retry, leave
  the handler as a status 500 that carries the error's text.
\<close>

theorem session_load_retry:
  "(\<forall>s. fetch year rnd sess full_load = Inr s \<longrightarrow>
       load_session fetch year rnd sess = ([SessionLoad full_load], Inr s))
   \<and> (\<forall>e. fetch year rnd sess full_load = Inl e \<longrightarrow>
        (SessionLoad reduced_load \<in> set (fst (get_lap_data fetch year rnd sess driver lap_number))
           \<longleftrightarrow> str_contains ''ergast'' (lower e) \<or> str_contains ''timeout'' (lower e))
        \<and> (str_contains ''ergast'' (lower e) \<or> str_contains ''timeout'' (lower e) \<longrightarrow>
             filter is_session_load (fst (get_lap_data fetch year rnd sess driver lap_number))
               = [SessionLoad full_load, SessionLoad reduced_load]
             \<and> load_session fetch year rnd sess
               = ([SessionLoad full_load, SessionLoad reduced_load],
                  map_sum ProviderError id (fetch year rnd sess reduced_load))
             \<and> (\<forall>e2. fetch year rnd sess reduced_load = Inl e2 \<longrightarrow>
                  get_lap_data fetch year rnd sess driver lap_number
                    = ([SessionLoad full_load, SessionLoad reduced_load], Inl (HTTPException 500 e2))))
        \<and> (\<not> (str_contains ''ergast'' (lower e) \<or> str_contains ''timeout'' (lower e)) \<longrightarrow>
             get_lap_data fetch year rnd sess driver lap_number
               = ([SessionLoad full_load], Inl (HTTPException 500 e))))
   \<and> reduced_load = \<lparr>kw_telemetry = True, kw_laps = True, kw_weather = None, kw_messages = None\<rparr>
   \<and> full_load = \<lparr>kw_telemetry = True, kw_laps = True, kw_weather = Some False, kw_messages = Some False\<rparr>"
proof (intro conjI allI impI)
  fix s assume "fetch year rnd sess full_load = Inr s"
  then show "load_session fetch year rnd sess = ([SessionLoad full_load], Inr s)"
    by (simp add: load_session_def)
next
  fix e assume e: "fetch year rnd sess full_load = Inl e"
  let ?t = "str_contains ''ergast'' (lower e) \<or> str_contains ''timeout'' (lower e)"
  have ne: "full_load \<noteq> reduced_load" by (simp add: full_load_def reduced_load_def)
  have mem: "SessionLoad reduced_load \<in> set (fst (get_lap_data fetch year rnd sess driver lap_number))
      \<longleftrightarrow> SessionLoad reduced_load \<in> set (filter is_session_load (fst (get_lap_data fetch year rnd sess driver lap_number)))"
    by simp
  show "SessionLoad reduced_load \<in> set (fst (get_lap_data fetch year rnd sess driver lap_number)) \<longleftrightarrow> ?t"
    unfolding mem later_calls using e ne by (simp add: load_session_def transient_def)
  {
    assume t: ?t
    show "filter is_session_load (fst (get_lap_data fetch year rnd sess driver lap_number))
               = [SessionLoad full_load, SessionLoad reduced_load]"
      unfolding later_calls using e t by (simp add: load_session_def transient_def)
    show l: "load_session fetch year rnd sess
               = ([SessionLoad full_load, SessionLoad reduced_load],
                  map_sum ProviderError id (fetch year rnd sess reduced_load))"
      using e t by (simp add: load_session_def transient_def split: sum.splits)
    fix e2 assume "fetch year rnd sess reduced_load = Inl e2"
    with l have "load_session fetch year rnd sess
        = ([SessionLoad full_load, SessionLoad reduced_load], Inl (ProviderError e2))" by simp
    from get_lap_data_load_failed[OF this]
    show "get_lap_data fetch year rnd sess driver lap_number
                    = ([SessionLoad full_load, SessionLoad reduced_load], Inl (HTTPException 500 e2))"
      by simp
  }
  assume "\<not> ?t"
  with e have "load_session fetch year rnd sess = ([SessionLoad full_load], Inl (ProviderError e))"
    by (simp add: load_session_def transient_def)
  from get_lap_data_load_failed[OF this]
  show "get_lap_data fetch year rnd sess driver lap_number = ([SessionLoad full_load], Inl (HTTPException 500 e))"
    by simp
next
  show "reduced_load = \<lparr>kw_telemetry = True, kw_laps = True, kw_weather = None, kw_messages = None\<rparr>"
    by (simp add: reduced_load_def)
  show "full_load = \<lparr>kw_telemetry = True, kw_laps = True, kw_weather = Some False, kw_messages = Some False\<rparr>"
    by (simp add: full_load_def)
qed


lemma ex_timeout_text: "str_contains ''timeout'' (lower ''Read Timeout'')"
  by code_simp

lemma ex_boom_text:
  "\<not> (str_contains ''ergast'' (lower ''boom'') \<or> str_contains ''timeout'' (lower ''boom''))"
  by code_simp

theorem session_load_retry_witness:
  "get_lap_data (ex_provider_flaky ''Read Timeout'' (Inl ''down'')) 2023 1 ''Q'' ''VER'' None
     = ([SessionLoad full_load, SessionLoad reduced_load], Inl (HTTPException 500 ''down''))
   \<and> get_lap_data (ex_provider_flaky ''boom'' (Inl ''down'')) 2023 1 ''Q'' ''VER'' None
     = ([SessionLoad full_load], Inl (HTTPException 500 ''boom''))"
proof -
  have f1: "ex_provider_flaky ''Read Timeout'' (Inl ''down'') 2023 1 ''Q'' full_load = Inl ''Read Timeout''"
    by (simp add: ex_provider_flaky_def full_load_def)
  have f2: "ex_provider_flaky ''Read Timeout'' (Inl ''down'') 2023 1 ''Q'' reduced_load = Inl ''down''"
    by (simp add: ex_provider_flaky_def reduced_load_def)
  have f3: "ex_provider_flaky ''boom'' (Inl ''down'') 2023 1 ''Q'' full_load = Inl ''boom''"
    by (simp add: ex_provider_flaky_def full_load_def)
  from session_load_retry [of "ex_provider_flaky ''Read Timeout'' (Inl ''down'')" 2023 1 "''Q''" "''VER''" None]
    f1 f2 ex_timeout_text
  have a: "get_lap_data (ex_provider_flaky ''Read Timeout'' (Inl ''down'')) 2023 1 ''Q'' ''VER'' None
     = ([SessionLoad full_load, SessionLoad reduced_load], Inl (HTTPException 500 ''down''))"
    by blast
  from session_load_retry [of "ex_provider_flaky ''boom'' (Inl ''down'')" 2023 1 "''Q''" "''VER''" None]
    f3 ex_boom_text
  have b: "get_lap_data (ex_provider_flaky ''boom'' (Inl ''down'')) 2023 1 ''Q'' ''VER'' None
     = ([SessionLoad full_load], Inl (HTTPException 500 ''boom''))"
    by blast
  from a b show ?thesis by simp
qed

section \<open>Lap selector\<close>

lemma choose_lap_zero: "choose_lap s driver (Some 0) = choose_lap s driver None"
  by (simp add: choose_lap_def select_lap_def Let_def)

text \<open>
  C9. The presence of \<^verbatim>\<open>lap_number\<close> is decided by truthiness: a request with
  \<^verbatim>\<open>lap_number=0\<close> is handled exactly as one without a lap number, and the selection is
  what \<^verbatim>\<open>pick_fastest\<close> returns, not a lookup of lap 0.
\<close>

theorem lap_number_zero_selects_fastest:
  "get_lap_data fetch year rnd sess driver (Some 0) = get_lap_data fetch year rnd sess driver None
   \<and> select_lap driver_laps (Some 0) = Inr (pick_fastest driver_laps)"
  by (simp add: get_lap_data_def lap_data_body_def choose_lap_zero select_lap_def)

section \<open>The stages of the handler\<close>

lemma snd_bind_logged_Inr:
  "snd (bind_logged m f) = Inr w \<longleftrightarrow> (\<exists>v. snd m = Inr v \<and> snd (f v) = Inr w)"
  by (cases m, cases "snd m") (simp_all add: bind_logged_def)

lemma get_lap_data_Inr:
  "get_lap_data fetch year rnd sess driver lap_number = (calls, Inr resp) \<longleftrightarrow>
     lap_data_body fetch year rnd sess driver lap_number = (calls, Inr resp)"
  by (auto simp: get_lap_data_def split: prod.splits sum.splits)

lemma get_lap_data_choose_failed:
  "load_session fetch year rnd sess = (cs, Inr s) \<Longrightarrow> choose_lap s driver lap_number = Inl e \<Longrightarrow>
     get_lap_data fetch year rnd sess driver lap_number = (cs, Inl (to_http e))"
  by (simp add: get_lap_data_def lap_data_body_def)

lemma build_response_Inr:
  "build_response s driver l merged = Inr resp \<Longrightarrow>
     \<exists>b pts. normalize merged = Inr (b, pts) \<and> resp_telemetry resp = pts
       \<and> resp_lap_number resp = LapNumber l \<and> resp_lap_time resp = the (LapTime l)
       \<and> resp_driver resp = driver
       \<and> x_bounds (resp_track_info resp) = (x_min b, x_max b)
       \<and> y_bounds (resp_track_info resp) = (y_min b, y_max b)"
  by (cases "normalize merged") (auto simp: build_response_def)

lemma lap_data_body_Inr:
  assumes "lap_data_body fetch year rnd sess driver lap_number = (calls, Inr resp)"
  shows "\<exists>cs s l ct telemetry cr merged.
     load_session fetch year rnd sess = (cs, Inr s) \<and> choose_lap s driver lap_number = Inr l
     \<and> fetch_telemetry l = (ct, Inr telemetry) \<and> reconcile l telemetry = (cr, Inr merged)
     \<and> build_response s driver l merged = Inr resp \<and> calls = cs @ ct @ cr"
proof -
  from assms have sn: "snd (lap_data_body fetch year rnd sess driver lap_number) = Inr resp"
    and fs: "fst (lap_data_body fetch year rnd sess driver lap_number) = calls" by simp_all
  from sn obtain s where s: "snd (load_session fetch year rnd sess) = Inr s"
    and r1: "snd (bind_logged ([], choose_lap s driver lap_number) (\<lambda>l.
       bind_logged (fetch_telemetry l) (\<lambda>telemetry.
       bind_logged (reconcile l telemetry) (\<lambda>merged_data.
         ([], build_response s driver l merged_data))))) = Inr resp"
    unfolding lap_data_body_def snd_bind_logged_Inr by blast
  from r1 obtain l where l: "choose_lap s driver lap_number = Inr l"
    and r2: "snd (bind_logged (fetch_telemetry l) (\<lambda>telemetry.
       bind_logged (reconcile l telemetry) (\<lambda>merged_data.
         ([], build_response s driver l merged_data)))) = Inr resp"
    unfolding snd_bind_logged_Inr by auto
  from r2 obtain telemetry where t: "snd (fetch_telemetry l) = Inr telemetry"
    and r3: "snd (bind_logged (reconcile l telemetry) (\<lambda>merged_data.
         ([], build_response s driver l merged_data))) = Inr resp"
    unfolding snd_bind_logged_Inr by auto
  from r3 obtain merged where m: "snd (reconcile l telemetry) = Inr merged"
    and r4: "build_response s driver l merged = Inr resp"
    unfolding snd_bind_logged_Inr by auto
  have a: "load_session fetch year rnd sess = (fst (load_session fetch year rnd sess), Inr s)"
    using s by (metis prod.collapse)
  have b: "fetch_telemetry l = (fst (fetch_telemetry l), Inr telemetry)"
    using t by (metis prod.collapse)
  have c: "reconcile l telemetry = (fst (reconcile l telemetry), Inr merged)"
    using m by (metis prod.collapse)
  have "calls = fst (load_session fetch year rnd sess) @ fst (fetch_telemetry l) @ fst (reconcile l telemetry)"
    using fs s l t m by (simp add: lap_data_body_def fst_bind_logged)
  with a l b c r4 show ?thesis by blast
qed

lemma get_lap_data_stages:
  assumes "load_session fetch year rnd sess = (cs, Inr s)" "choose_lap s driver lap_number = Inr l"
    "fetch_telemetry l = (ct, Inr telemetry)"
  shows "get_lap_data fetch year rnd sess driver lap_number =
     (cs @ ct @ fst (reconcile l telemetry),
      map_sum to_http id (bind_exn (snd (reconcile l telemetry)) (build_response s driver l)))"
  using assms
  by (cases "reconcile l telemetry"; cases "snd (reconcile l telemetry)";
      cases "build_response s driver l (projr (snd (reconcile l telemetry)))")
     (simp_all add: get_lap_data_def lap_data_body_def)

section \<open>Lap selection and the lap time\<close>

lemma unmatched_lap_number:
  assumes "load_session fetch year rnd sess = (cs, Inr s)"
    and "lap_rows (pick_drivers s driver) \<noteq> []"
    and "truthy lap_number"
    and "filter (\<lambda>l. LapNumber l = the lap_number) (lap_rows (pick_drivers s driver)) = []"
  shows "get_lap_data fetch year rnd sess driver lap_number
     = (cs, Inl (HTTPException 500 ''single positional indexer is out-of-bounds''))"
proof -
  from assms(2-4) have "choose_lap s driver lap_number = Inl (IndexError ''single positional indexer is out-of-bounds'')"
    by (simp add: choose_lap_def select_lap_def Let_def)
  from get_lap_data_choose_failed[OF assms(1) this] show ?thesis by simp
qed

lemma ex_load: "load_session (ex_provider ls fastest) year rnd sess = ([SessionLoad full_load], Inr (ex_session ls fastest))"
  by (simp add: load_session_def ex_provider_def)

lemma ex_driver_laps [simp]:
  "lap_rows (pick_drivers (ex_session ls fastest) ''VER'') = ls"
  "pick_fastest (pick_drivers (ex_session ls fastest) ''VER'') = fastest"
  by (simp_all add: ex_session_def ex_laps_def)

text \<open>
  C4. A request whose lap number matches no lap of the driver does not end as a 404:
  \<^verbatim>\<open>iloc[0]\<close> on the empty selection raises an \<^verbatim>\<open>IndexError\<close>, which the last \<^verbatim>\<open>except\<close>
  clause turns into a status 500 (lemma \<open>unmatched_lap_number\<close>). Here the driver has
  the laps 0 and 1 and the request asks for lap 99.
\<close>

theorem unmatched_lap_number_is_500:
  "get_lap_data (ex_provider [ex_lap0, ex_lap1] (Some ex_lap1)) 2023 1 ''Q'' ''VER'' (Some 99)
     = ([SessionLoad full_load], Inl (HTTPException 500 ''single positional indexer is out-of-bounds''))"
  by (rule unmatched_lap_number[OF ex_load]) (simp_all add: ex_lap0_def ex_lap1_def ex_lap_def)

text \<open>
  C5. Whatever lap the selection yields, by number or from \<^verbatim>\<open>pick_fastest\<close>, a lap whose
  time is null ends the request as a 404 with the reason "Selected lap has no valid lap
  time". Without a (truthy) lap number the selection is what \<^verbatim>\<open>pick_fastest\<close> returns, and
  a response is only ever built for a lap whose time is not null, so a lap without a time
  is never returned, however \<^verbatim>\<open>pick_fastest\<close> chose it.
\<close>

theorem null_lap_time_is_not_found:
  assumes "load_session fetch year rnd sess = (cs, Inr s)"
    and "lap_rows (pick_drivers s driver) \<noteq> []"
  shows "(\<forall>l. select_lap (pick_drivers s driver) lap_number = Inr (Some l) \<and> LapTime l = None \<longrightarrow>
            get_lap_data fetch year rnd sess driver lap_number
              = (cs, Inl (HTTPException 404 ''Selected lap has no valid lap time'')))
       \<and> (\<not> truthy lap_number \<longrightarrow>
            select_lap (pick_drivers s driver) lap_number = Inr (pick_fastest (pick_drivers s driver)))
       \<and> (\<forall>calls resp. get_lap_data fetch year rnd sess driver lap_number = (calls, Inr resp) \<longrightarrow>
            (\<exists>l t. select_lap (pick_drivers s driver) lap_number = Inr (Some l) \<and> LapTime l = Some t
                \<and> resp_lap_time resp = t \<and> resp_lap_number resp = LapNumber l))"
proof (intro conjI allI impI)
  fix l assume "select_lap (pick_drivers s driver) lap_number = Inr (Some l) \<and> LapTime l = None"
  with assms(2) have "choose_lap s driver lap_number = Inl (HTTPException 404 ''Selected lap has no valid lap time'')"
    by (simp add: choose_lap_def check_lap_time_def Let_def)
  from get_lap_data_choose_failed[OF assms(1) this]
  show "get_lap_data fetch year rnd sess driver lap_number
              = (cs, Inl (HTTPException 404 ''Selected lap has no valid lap time''))" by simp
next
  assume "\<not> truthy lap_number"
  then show "select_lap (pick_drivers s driver) lap_number = Inr (pick_fastest (pick_drivers s driver))"
    by (simp add: select_lap_def)
next
  fix calls resp
  assume "get_lap_data fetch year rnd sess driver lap_number = (calls, Inr resp)"
  then have "lap_data_body fetch year rnd sess driver lap_number = (calls, Inr resp)"
    by (simp add: get_lap_data_Inr)
  from lap_data_body_Inr[OF this] assms(1) obtain l merged where
    l: "choose_lap s driver lap_number = Inr l" and b: "build_response s driver l merged = Inr resp"
    by auto
  from l assms(2) obtain sel where sel: "select_lap (pick_drivers s driver) lap_number = Inr sel"
    and chk: "check_lap_time sel = Inr l"
    by (auto simp: choose_lap_def Let_def bind_exn_Inr_iff)
  from chk have "sel = Some l \<and> LapTime l \<noteq> None"
    by (auto simp: check_lap_time_def split: option.splits if_splits)
  then obtain t where "sel = Some l" "LapTime l = Some t" by auto
  with sel build_response_Inr[OF b]
  show "\<exists>l t. select_lap (pick_drivers s driver) lap_number = Inr (Some l) \<and> LapTime l = Some t
                \<and> resp_lap_time resp = t \<and> resp_lap_number resp = LapNumber l"
    by auto
qed

theorem null_lap_time_is_not_found_witness:
  "get_lap_data (ex_provider [ex_lap1, ex_lap3] (Some ex_lap3)) 2023 1 ''Q'' ''VER'' None
     = ([SessionLoad full_load], Inl (HTTPException 404 ''Selected lap has no valid lap time''))
   \<and> get_lap_data (ex_provider [ex_lap1, ex_lap3] (Some ex_lap3)) 2023 1 ''Q'' ''VER'' (Some 3)
     = ([SessionLoad full_load], Inl (HTTPException 404 ''Selected lap has no valid lap time''))"
proof -
  have ne: "lap_rows (pick_drivers (ex_session [ex_lap1, ex_lap3] (Some ex_lap3)) ''VER'') \<noteq> []"
    by simp
  have t: "LapTime ex_lap3 = None" by (simp add: ex_lap3_def ex_lap_def)
  have s1: "select_lap (pick_drivers (ex_session [ex_lap1, ex_lap3] (Some ex_lap3)) ''VER'') None = Inr (Some ex_lap3)"
    by (simp add: select_lap_def)
  have s2: "select_lap (pick_drivers (ex_session [ex_lap1, ex_lap3] (Some ex_lap3)) ''VER'') (Some 3) = Inr (Some ex_lap3)"
    by (simp add: select_lap_def ex_lap1_def ex_lap3_def ex_lap_def)
  from null_lap_time_is_not_found [of "ex_provider [ex_lap1, ex_lap3] (Some ex_lap3)" 2023 1 "''Q''"
      "[SessionLoad full_load]" "ex_session [ex_lap1, ex_lap3] (Some ex_lap3)" "''VER''" None] ex_load ne s1 t
  have a: "get_lap_data (ex_provider [ex_lap1, ex_lap3] (Some ex_lap3)) 2023 1 ''Q'' ''VER'' None
     = ([SessionLoad full_load], Inl (HTTPException 404 ''Selected lap has no valid lap time''))"
    by blast
  from null_lap_time_is_not_found [of "ex_provider [ex_lap1, ex_lap3] (Some ex_lap3)" 2023 1 "''Q''"
      "[SessionLoad full_load]" "ex_session [ex_lap1, ex_lap3] (Some ex_lap3)" "''VER''" "Some 3"] ex_load ne s2 t
  have b: "get_lap_data (ex_provider [ex_lap1, ex_lap3] (Some ex_lap3)) 2023 1 ''Q'' ''VER'' (Some 3)
     = ([SessionLoad full_load], Inl (HTTPException 404 ''Selected lap has no valid lap time''))"
    by blast
  from a b show ?thesis by simp
qed

section \<open>The inner join\<close>

lemma count_le_one:
  "distinct (map f ys) \<Longrightarrow> length (filter (\<lambda>b. f b = i) ys) \<le> 1"
proof (induction ys)
  case Nil
  then show ?case by simp
next
  case (Cons y ys)
  show ?case
  proof (cases "f y = i")
    case True
    from Cons.prems have "f y \<notin> f ` set ys" by simp
    with True have "\<forall>b\<in>set ys. f b \<noteq> i" by (metis imageI)
    then have "filter (\<lambda>b. f b = i) ys = []"
      by (simp add: filter_empty_conv)
    with True show ?thesis by simp
  next
    case False
    with Cons show ?thesis by simp
  qed
qed

lemma sum_list_bounded:
  "(\<And>a. a \<in> set xs \<Longrightarrow> h a \<le> (n::nat)) \<Longrightarrow> sum_list (map h xs) \<le> length xs * n"
  by (induction xs) (simp_all add: add_mono)

lemma double_count:
  "sum_list (map (\<lambda>a. length (filter (\<lambda>b. g b = f a) ys)) xs)
     = sum_list (map (\<lambda>b. length (filter (\<lambda>a. f a = g b) xs)) ys)"
proof (induction xs)
  case Nil
  then show ?case by simp
next
  case (Cons x xs)
  have "length (filter (\<lambda>b. g b = f x) ys) = sum_list (map (\<lambda>b. if f x = g b then 1 else 0) ys)"
    by (induction ys) auto
  moreover have "sum_list (map (\<lambda>b. length (filter (\<lambda>a. f a = g b) (x # xs))) ys)
      = sum_list (map (\<lambda>b. if f x = g b then 1 else 0) ys)
        + sum_list (map (\<lambda>b. length (filter (\<lambda>a. f a = g b) xs)) ys)"
    by (induction ys) auto
  ultimately show ?case using Cons.IH by simp
qed

lemma rows_merge_inner:
  "rows (merge_inner left right) =
     concat (map (\<lambda>il. map (\<lambda>jr. (fst il, joined_row left right (snd il) (snd jr)))
                           (filter (\<lambda>jr. fst jr = fst il) (rows right))) (rows left))"
  by (simp add: merge_inner_def)

lemma length_merge_inner:
  "length (rows (merge_inner left right)) =
     sum_list (map (\<lambda>il. length (filter (\<lambda>jr. fst jr = fst il) (rows right))) (rows left))"
  by (simp add: rows_merge_inner length_concat comp_def)

lemma merge_inner_le_left:
  assumes "distinct (map fst (rows right))"
  shows "length (rows (merge_inner left right)) \<le> length (rows left)"
proof -
  have "sum_list (map (\<lambda>il. length (filter (\<lambda>jr. fst jr = fst il) (rows right))) (rows left))
      \<le> length (rows left) * 1"
    by (rule sum_list_bounded) (rule count_le_one[OF assms])
  then show ?thesis by (simp add: length_merge_inner)
qed

lemma merge_inner_le_right:
  assumes "distinct (map fst (rows left))"
  shows "length (rows (merge_inner left right)) \<le> length (rows right)"
proof -
  have "sum_list (map (\<lambda>jr. length (filter (\<lambda>il. fst il = fst jr) (rows left))) (rows right))
      \<le> length (rows right) * 1"
    by (rule sum_list_bounded) (rule count_le_one[OF assms])
  then show ?thesis
    by (simp add: length_merge_inner double_count[of fst fst "rows right" "rows left"])
qed

lemma merge_inner_le_product:
  "length (rows (merge_inner left right)) \<le> length (rows left) * length (rows right)"
  unfolding length_merge_inner by (rule sum_list_bounded) simp

lemma merge_inner_rows_iff:
  "(i, m) \<in> set (rows (merge_inner left right)) \<longleftrightarrow>
     (\<exists>t p. (i, t) \<in> set (rows left) \<and> (i, p) \<in> set (rows right) \<and> m = joined_row left right t p)"
  by (force simp: rows_merge_inner)

lemma merge_inner_labels:
  "set (map fst (rows (merge_inner left right))) =
     set (map fst (rows left)) \<inter> set (map fst (rows right))"
proof (intro set_eqI iffI)
  fix i assume "i \<in> set (map fst (rows (merge_inner left right)))"
  then obtain m where "(i, m) \<in> set (rows (merge_inner left right))" by auto
  then show "i \<in> set (map fst (rows left)) \<inter> set (map fst (rows right))"
    unfolding merge_inner_rows_iff by force
next
  fix i assume "i \<in> set (map fst (rows left)) \<inter> set (map fst (rows right))"
  then obtain t p where "(i, t) \<in> set (rows left)" "(i, p) \<in> set (rows right)" by auto
  then have "(i, joined_row left right t p) \<in> set (rows (merge_inner left right))"
    unfolding merge_inner_rows_iff by blast
  then show "i \<in> set (map fst (rows (merge_inner left right)))" by force
qed

section \<open>Telemetry reconciler\<close>

lemma reconcile_without_xy:
  "\<not> has_xy telemetry \<Longrightarrow>
     reconcile l telemetry =
       (fst (choose_position l), bind_exn (snd (choose_position l)) (merge_position telemetry))"
  by (cases "choose_position l"; cases "snd (choose_position l)") (simp_all add: reconcile_def)

lemma choose_position_Inr:
  "choose_position l = (cp, Inr pos) \<Longrightarrow> yields_xy pos \<and>
     ((get_pos_data l = Inr pos \<and> cp = [GetPosData]) \<or>
      (get_car_data l = Inr pos \<and> cp = [GetPosData, GetCarData]
         \<and> (\<exists>first. get_pos_data l = Inr first \<and> \<not> yields_xy first)))"
  by (auto simp: choose_position_def split: sum.splits if_splits)

text \<open>
  C2, as the code has it. When the telemetry lacks X or Y and the dedicated position
  stream is fetched without an exception, the sources are asked in the order position
  stream, car data: the position stream is used when it is not empty and has X and Y,
  otherwise the car data is; when neither yields X and Y (an exception of the car-data
  accessor counts as not yielding) the request ends as a 404 whose reason suggests
  another session. When fetching the position stream raises, the request ends at once as
  a 404 "No position data available for this lap" and the car data is not asked.
\<close>

theorem position_source_priority:
  assumes "load_session fetch year rnd sess = (cs, Inr s)"
    and "choose_lap s driver lap_number = Inr l"
    and "fetch_telemetry l = (ct, Inr telemetry)"
    and "\<not> has_xy telemetry"
  shows "(\<forall>pos. get_pos_data l = Inr pos \<and> yields_xy pos \<longrightarrow>
            reconcile l telemetry = ([GetPosData], merge_position telemetry pos))
       \<and> (\<forall>pos car. get_pos_data l = Inr pos \<and> \<not> yields_xy pos
               \<and> get_car_data l = Inr car \<and> yields_xy car \<longrightarrow>
            reconcile l telemetry = ([GetPosData, GetCarData], merge_position telemetry car))
       \<and> (\<forall>pos. get_pos_data l = Inr pos \<and> \<not> yields_xy pos
               \<and> (\<forall>car. get_car_data l = Inr car \<longrightarrow> \<not> yields_xy car) \<longrightarrow>
            get_lap_data fetch year rnd sess driver lap_number =
              (cs @ ct @ [GetPosData, GetCarData], Inl (HTTPException 404
                 ''No position data (X, Y coordinates) available for this lap. Try a different session (Qualifying often has better data).'')))
       \<and> (\<forall>e. get_pos_data l = Inl e \<longrightarrow>
            get_lap_data fetch year rnd sess driver lap_number =
              (cs @ ct @ [GetPosData], Inl (HTTPException 404 ''No position data available for this lap'')))"
proof (intro conjI allI impI)
  fix pos assume "get_pos_data l = Inr pos \<and> yields_xy pos"
  then have "choose_position l = ([GetPosData], Inr pos)" by (simp add: choose_position_def)
  then show "reconcile l telemetry = ([GetPosData], merge_position telemetry pos)"
    by (simp add: reconcile_without_xy[OF assms(4)])
next
  fix pos car
  assume "get_pos_data l = Inr pos \<and> \<not> yields_xy pos \<and> get_car_data l = Inr car \<and> yields_xy car"
  then have "choose_position l = ([GetPosData, GetCarData], Inr car)" by (simp add: choose_position_def)
  then show "reconcile l telemetry = ([GetPosData, GetCarData], merge_position telemetry car)"
    by (simp add: reconcile_without_xy[OF assms(4)])
next
  fix pos
  assume "get_pos_data l = Inr pos \<and> \<not> yields_xy pos \<and> (\<forall>car. get_car_data l = Inr car \<longrightarrow> \<not> yields_xy car)"
  then have "choose_position l = ([GetPosData, GetCarData], Inl (HTTPException 404
      ''No position data (X, Y coordinates) available for this lap. Try a different session (Qualifying often has better data).''))"
    by (cases "get_car_data l") (simp_all add: choose_position_def)
  then show "get_lap_data fetch year rnd sess driver lap_number =
              (cs @ ct @ [GetPosData, GetCarData], Inl (HTTPException 404
                 ''No position data (X, Y coordinates) available for this lap. Try a different session (Qualifying often has better data).''))"
    by (simp add: get_lap_data_stages[OF assms(1-3)] reconcile_without_xy[OF assms(4)])
next
  fix e assume "get_pos_data l = Inl e"
  then have "choose_position l = ([GetPosData], Inl (HTTPException 404 ''No position data available for this lap''))"
    by (simp add: choose_position_def)
  then show "get_lap_data fetch year rnd sess driver lap_number =
              (cs @ ct @ [GetPosData], Inl (HTTPException 404 ''No position data available for this lap''))"
    by (simp add: get_lap_data_stages[OF assms(1-3)] reconcile_without_xy[OF assms(4)])
qed

lemma ex_choose_lap:
  "LapNumber l \<noteq> 0 \<Longrightarrow> LapTime l \<noteq> None \<Longrightarrow>
     choose_lap (ex_session [l] fastest) ''VER'' (Some (LapNumber l)) = Inr l"
  by (simp add: choose_lap_def select_lap_def check_lap_time_def)

lemma ex_plain_not_empty: "\<not> df_empty ex_telemetry_plain"
  by (simp add: df_empty_def ex_telemetry_plain_def frame_of_def dynamics_def)

lemma ex_plain_no_xy: "\<not> has_xy ex_telemetry_plain"
  by (simp add: has_xy_def ex_telemetry_plain_def frame_of_def dynamics_def)

lemma ex_fetch_plain:
  "get_telemetry l = Inr ex_telemetry_plain \<Longrightarrow> fetch_telemetry l = ([GetTelemetry], Inr ex_telemetry_plain)"
  by (simp add: fetch_telemetry_def ex_plain_not_empty)

lemma ex_pos_yields: "yields_xy ex_pos"
  by (simp add: yields_xy_def has_xy_def df_empty_def ex_pos_def frame_of_def)

lemma ex_car_no_xy_yields: "\<not> yields_xy ex_car_no_xy"
  by (simp add: yields_xy_def has_xy_def df_empty_def ex_car_no_xy_def frame_of_def)

text \<open>
  The claim as stated fails where the position accessor raises: the car data of this lap
  has X and Y, yet it is never asked, and the reason of the 404 does not suggest another
  session.
\<close>

theorem position_source_priority_counterexample:
  "get_lap_data (ex_provider [ex_lap4] None) 2023 1 ''R'' ''VER'' (Some 4)
     = ([SessionLoad full_load, GetTelemetry, GetPosData],
        Inl (HTTPException 404 ''No position data available for this lap''))
   \<and> \<not> has_xy ex_telemetry_plain
   \<and> get_telemetry ex_lap4 = Inr ex_telemetry_plain
   \<and> get_car_data ex_lap4 = Inr ex_pos \<and> yields_xy ex_pos"
proof -
  have l: "choose_lap (ex_session [ex_lap4] None) ''VER'' (Some 4) = Inr ex_lap4"
    using ex_choose_lap[of ex_lap4 None] by (simp add: ex_lap4_def ex_lap_def)
  have t: "fetch_telemetry ex_lap4 = ([GetTelemetry], Inr ex_telemetry_plain)"
    by (rule ex_fetch_plain) (simp add: ex_lap4_def ex_lap_def)
  have c: "choose_position ex_lap4 = ([GetPosData], Inl (HTTPException 404 ''No position data available for this lap''))"
    by (simp add: choose_position_def ex_lap4_def ex_lap_def)
  have "get_lap_data (ex_provider [ex_lap4] None) 2023 1 ''R'' ''VER'' (Some 4)
     = ([SessionLoad full_load, GetTelemetry, GetPosData],
        Inl (HTTPException 404 ''No position data available for this lap''))"
    by (simp add: get_lap_data_stages[OF ex_load l t] reconcile_without_xy[OF ex_plain_no_xy] c)
  then show ?thesis
    using ex_plain_no_xy ex_pos_yields by (simp add: ex_lap4_def ex_lap_def)
qed

theorem position_source_priority_witness:
  "get_lap_data (ex_provider [ex_lap5] None) 2023 1 ''R'' ''VER'' (Some 5)
     = ([SessionLoad full_load, GetTelemetry, GetPosData, GetCarData], Inl (HTTPException 404
         ''No position data (X, Y coordinates) available for this lap. Try a different session (Qualifying often has better data).''))
   \<and> reconcile ex_lap2 ex_telemetry_plain = ([GetPosData], merge_position ex_telemetry_plain ex_pos)"
proof -
  have l5: "choose_lap (ex_session [ex_lap5] None) ''VER'' (Some 5) = Inr ex_lap5"
    using ex_choose_lap[of ex_lap5 None] by (simp add: ex_lap5_def ex_lap_def)
  have t5: "fetch_telemetry ex_lap5 = ([GetTelemetry], Inr ex_telemetry_plain)"
    by (rule ex_fetch_plain) (simp add: ex_lap5_def ex_lap_def)
  have p5: "get_pos_data ex_lap5 = Inr ex_car_no_xy \<and> \<not> yields_xy ex_car_no_xy
      \<and> (\<forall>car. get_car_data ex_lap5 = Inr car \<longrightarrow> \<not> yields_xy car)"
    using ex_car_no_xy_yields by (simp add: ex_lap5_def ex_lap_def)
  have l2: "choose_lap (ex_session [ex_lap2] None) ''VER'' (Some 2) = Inr ex_lap2"
    using ex_choose_lap[of ex_lap2 None] by (simp add: ex_lap2_def ex_lap_def)
  have t2: "fetch_telemetry ex_lap2 = ([GetTelemetry], Inr ex_telemetry_plain)"
    by (rule ex_fetch_plain) (simp add: ex_lap2_def ex_lap_def)
  have p2: "get_pos_data ex_lap2 = Inr ex_pos \<and> yields_xy ex_pos"
    using ex_pos_yields by (simp add: ex_lap2_def ex_lap_def)
  from position_source_priority[OF ex_load l5 t5 ex_plain_no_xy] p5
  have a: "get_lap_data (ex_provider [ex_lap5] None) 2023 1 ''R'' ''VER'' (Some 5)
     = ([SessionLoad full_load] @ [GetTelemetry] @ [GetPosData, GetCarData], Inl (HTTPException 404
         ''No position data (X, Y coordinates) available for this lap. Try a different session (Qualifying often has better data).''))"
    by blast
  from position_source_priority[OF ex_load l2 t2 ex_plain_no_xy] p2
  have b: "reconcile ex_lap2 ex_telemetry_plain = ([GetPosData], merge_position ex_telemetry_plain ex_pos)"
    by blast
  from a b show ?thesis by simp
qed

lemma find_unique:
  "c \<in> set xs \<Longrightarrow> P c \<Longrightarrow> (\<And>k. k \<in> set xs \<Longrightarrow> P k \<Longrightarrow> k = c) \<Longrightarrow> find P xs = Some c"
proof (induction xs)
  case Nil
  then show ?case by simp
next
  case (Cons a xs)
  show ?case
  proof (cases "P a")
    case True
    then have "a = c" using Cons.prems(3)[of a] by simp
    with True show ?thesis by simp
  next
    case False
    with Cons.prems(1,2) have "c \<in> set xs" by auto
    from Cons.IH[OF this Cons.prems(2)] Cons.prems(3) False show ?thesis by simp
  qed
qed

lemma find_none: "(\<And>k. k \<in> set xs \<Longrightarrow> \<not> P k) \<Longrightarrow> find P xs = None"
  by (induction xs) simp_all

lemma joined_row_left:
  assumes "c \<in> set (columns left)" "c \<notin> set (columns right)"
    and "\<And>k. k \<in> set (columns right) \<Longrightarrow> k @ ''_x'' \<noteq> c"
  shows "joined_row left right l r c = l c"
proof -
  have "find (\<lambda>k. suffix_if (columns right) ''_x'' k = c) (columns left) = Some c"
  proof (rule find_unique)
    show "c \<in> set (columns left)" by fact
    show "suffix_if (columns right) ''_x'' c = c" using assms(2) by (simp add: suffix_if_def)
    fix k assume k: "k \<in> set (columns left)" "suffix_if (columns right) ''_x'' k = c"
    show "k = c"
    proof (cases "k \<in> set (columns right)")
      case True
      with k(2) have "k @ ''_x'' = c" by (simp add: suffix_if_def)
      with assms(3)[OF True] show ?thesis by blast
    next
      case False
      with k(2) show ?thesis by (simp add: suffix_if_def)
    qed
  qed
  then show ?thesis by (simp add: joined_row_def)
qed

lemma joined_row_right:
  assumes "c \<in> set (columns right)" "c \<notin> set (columns left)"
    and "\<And>k. k \<in> set (columns right) \<Longrightarrow> k @ ''_x'' \<noteq> c"
    and "\<And>k. k \<in> set (columns left) \<Longrightarrow> k @ ''_y'' \<noteq> c"
  shows "joined_row left right l r c = r c"
proof -
  have "find (\<lambda>k. suffix_if (columns right) ''_x'' k = c) (columns left) = None"
  proof (rule find_none)
    fix k assume k: "k \<in> set (columns left)"
    show "suffix_if (columns right) ''_x'' k \<noteq> c"
    proof (cases "k \<in> set (columns right)")
      case True
      with assms(3)[OF True] show ?thesis by (simp add: suffix_if_def)
    next
      case False
      with k assms(2) have "k \<noteq> c" by blast
      with False show ?thesis by (simp add: suffix_if_def)
    qed
  qed
  moreover have "find (\<lambda>k. suffix_if (columns left) ''_y'' k = c) (columns right) = Some c"
  proof (rule find_unique)
    show "c \<in> set (columns right)" by fact
    show "suffix_if (columns left) ''_y'' c = c" using assms(2) by (simp add: suffix_if_def)
    fix k assume k: "k \<in> set (columns right)" "suffix_if (columns left) ''_y'' k = c"
    show "k = c"
    proof (cases "k \<in> set (columns left)")
      case True
      with k(2) have "k @ ''_y'' = c" by (simp add: suffix_if_def)
      with assms(4)[OF True] show ?thesis by blast
    next
      case False
      with k(2) show ?thesis by (simp add: suffix_if_def)
    qed
  qed
  ultimately show ?thesis by (simp add: joined_row_def)
qed

lemma select_columns_cases:
  "(set cols \<subseteq> set (columns df) \<and> select_columns df cols = Inr (df\<lparr>columns := cols\<rparr>))
   \<or> (\<not> set cols \<subseteq> set (columns df) \<and> (\<exists>m. select_columns df cols = Inl (KeyError m)))"
proof (cases "filter (\<lambda>c. c \<notin> set (columns df)) cols")
  case Nil
  then have "set cols \<subseteq> set (columns df)" by (auto simp: filter_empty_conv)
  with Nil show ?thesis by (simp add: select_columns_def)
next
  case (Cons m ms)
  then have "m \<in> set (filter (\<lambda>c. c \<notin> set (columns df)) cols)" by simp
  then have "\<not> set cols \<subseteq> set (columns df)" by auto
  with Cons show ?thesis by (simp add: select_columns_def)
qed

lemma z_in_pos_columns: "''Z'' \<in> set (pos_columns telemetry pos)"
  by (simp add: pos_columns_def)

lemma merge_position_Inr:
  assumes "merge_position telemetry pos = Inr merged"
  shows "''Z'' \<in> set (columns pos) \<and>
     merged = merge_inner telemetry (pos\<lparr>columns := pos_columns telemetry pos\<rparr>)"
proof -
  from assms obtain proj where p: "select_columns pos (pos_columns telemetry pos) = Inr proj"
    and m: "merged = merge_inner telemetry proj"
    by (auto simp: merge_position_def bind_exn_Inr_iff)
  from p select_columns_cases[of "pos_columns telemetry pos" pos]
  have "set (pos_columns telemetry pos) \<subseteq> set (columns pos)"
    and "proj = pos\<lparr>columns := pos_columns telemetry pos\<rparr>" by auto
  with m z_in_pos_columns[of telemetry pos] show ?thesis by blast
qed

lemma merge_position_missing_z:
  assumes "''Z'' \<notin> set (columns pos)"
  shows "\<exists>m. merge_position telemetry pos = Inl (KeyError m)"
proof -
  from assms z_in_pos_columns[of telemetry pos]
  have "\<not> set (pos_columns telemetry pos) \<subseteq> set (columns pos)" by blast
  with select_columns_cases[of "pos_columns telemetry pos" pos]
  obtain m where "select_columns pos (pos_columns telemetry pos) = Inl (KeyError m)" by blast
  then show ?thesis by (simp add: merge_position_def)
qed

text \<open>
  C10. Whenever a merge is needed, the chosen position source is projected on X, Y and Z
  (and on Distance when it has that column and the telemetry has not). A chosen source,
  which has X and Y, that lacks the column Z makes the projection raise a \<^verbatim>\<open>KeyError\<close>, so
  the request ends as a status 500 and nothing is merged.
\<close>

theorem missing_z_is_500:
  assumes "load_session fetch year rnd sess = (cs, Inr s)"
    and "choose_lap s driver lap_number = Inr l"
    and "fetch_telemetry l = (ct, Inr telemetry)"
    and "\<not> has_xy telemetry"
    and "choose_position l = (cp, Inr pos)"
    and "''Z'' \<notin> set (columns pos)"
  shows "(\<exists>d. get_lap_data fetch year rnd sess driver lap_number
            = (cs @ ct @ cp, Inl (HTTPException 500 d)))
       \<and> has_xy pos
       \<and> take 3 (pos_columns telemetry pos) = [''X'', ''Y'', ''Z'']
       \<and> drop 3 (pos_columns telemetry pos) =
           (if ''Distance'' \<in> set (columns pos) \<and> ''Distance'' \<notin> set (columns telemetry)
            then [''Distance''] else [])
       \<and> (\<exists>m. reconcile l telemetry = (cp, Inl (KeyError m)))"
proof -
  from merge_position_missing_z[OF assms(6)] obtain m where
    m: "merge_position telemetry pos = Inl (KeyError m)" by blast
  have r: "reconcile l telemetry = (cp, Inl (KeyError m))"
    using assms(5) m by (simp add: reconcile_without_xy[OF assms(4)])
  have g: "get_lap_data fetch year rnd sess driver lap_number = (cs @ ct @ cp, Inl (HTTPException 500 m))"
    by (simp add: get_lap_data_stages[OF assms(1-3)] r)
  have h: "has_xy pos" using choose_position_Inr[OF assms(5)] by (simp add: yields_xy_def)
  have t: "take 3 (pos_columns telemetry pos) = [''X'', ''Y'', ''Z'']"
    by (simp add: pos_columns_def)
  have d: "drop 3 (pos_columns telemetry pos) =
           (if ''Distance'' \<in> set (columns pos) \<and> ''Distance'' \<notin> set (columns telemetry)
            then [''Distance''] else [])"
    by (simp add: pos_columns_def)
  from g h t d r show ?thesis by blast
qed

lemma ex_pos_no_z_yields: "yields_xy ex_pos_no_z"
  by (simp add: yields_xy_def has_xy_def df_empty_def ex_pos_no_z_def frame_of_def)


theorem missing_z_is_500_witness:
  "(\<exists>d. get_lap_data (ex_provider [ex_lap6] None) 2023 1 ''R'' ''VER'' (Some 6)
      = ([SessionLoad full_load, GetTelemetry, GetPosData], Inl (HTTPException 500 d)))
   \<and> has_xy ex_pos_no_z"
proof -
  have l: "choose_lap (ex_session [ex_lap6] None) ''VER'' (Some 6) = Inr ex_lap6"
    using ex_choose_lap[of ex_lap6 None] by (simp add: ex_lap6_def ex_lap_def)
  have t: "fetch_telemetry ex_lap6 = ([GetTelemetry], Inr ex_telemetry_plain)"
    by (rule ex_fetch_plain) (simp add: ex_lap6_def ex_lap_def)
  have c: "choose_position ex_lap6 = ([GetPosData], Inr ex_pos_no_z)"
    using ex_pos_no_z_yields by (simp add: choose_position_def ex_lap6_def ex_lap_def)
  have z: "''Z'' \<notin> set (columns ex_pos_no_z)"
    by (simp add: ex_pos_no_z_def frame_of_def)
  from missing_z_is_500[OF ex_load l t ex_plain_no_xy c z] show ?thesis by simp
qed

lemma no_suffix_x: "last c \<noteq> CHR ''x'' \<Longrightarrow> k @ ''_x'' \<noteq> c"
  by auto

lemma no_suffix_y: "last c \<noteq> CHR ''y'' \<Longrightarrow> k @ ''_y'' \<noteq> c"
  by auto

lemma dynamics_label:
  assumes "c \<in> set [''Speed'', ''Throttle'', ''Brake'', ''nGear'', ''RPM'', ''DRS'', ''Time'']"
  shows "c \<notin> set (pos_columns telemetry pos)" and "last c \<noteq> CHR ''x''"
  using assms by (auto simp: pos_columns_def)

lemma joined_dynamics:
  assumes "c \<in> set [''Speed'', ''Throttle'', ''Brake'', ''nGear'', ''RPM'', ''DRS'', ''Time'']"
    and "c \<in> set (columns telemetry)"
  shows "joined_row telemetry (pos\<lparr>columns := pos_columns telemetry pos\<rparr>) t p c = t c"
proof (rule joined_row_left)
  show "c \<in> set (columns telemetry)" by fact
  show "c \<notin> set (columns (pos\<lparr>columns := pos_columns telemetry pos\<rparr>))"
    using dynamics_label(1)[OF assms(1)] by simp
  fix k show "k @ ''_x'' \<noteq> c" by (rule no_suffix_x) (rule dynamics_label(2)[OF assms(1)])
qed

lemma joined_distance_left:
  assumes "''Distance'' \<in> set (columns telemetry)"
  shows "joined_row telemetry (pos\<lparr>columns := pos_columns telemetry pos\<rparr>) t p ''Distance'' = t ''Distance''"
proof (rule joined_row_left)
  show "''Distance'' \<in> set (columns telemetry)" by fact
  show "''Distance'' \<notin> set (columns (pos\<lparr>columns := pos_columns telemetry pos\<rparr>))"
    using assms by (simp add: pos_columns_def)
  fix k show "k @ ''_x'' \<noteq> ''Distance''" by (rule no_suffix_x) simp
qed

lemma joined_from_position:
  assumes "c \<in> set (pos_columns telemetry pos)" "c \<notin> set (columns telemetry)"
    and "last c \<noteq> CHR ''x''" "last c \<noteq> CHR ''y''"
  shows "joined_row telemetry (pos\<lparr>columns := pos_columns telemetry pos\<rparr>) t p c = p c"
proof (rule joined_row_right)
  show "c \<in> set (columns (pos\<lparr>columns := pos_columns telemetry pos\<rparr>))" using assms(1) by simp
  show "c \<notin> set (columns telemetry)" by fact
  fix k show "k @ ''_x'' \<noteq> c" by (rule no_suffix_x) fact
  show "k @ ''_y'' \<noteq> c" by (rule no_suffix_y) fact
qed

text \<open>
  C3, as the code has it. When the telemetry lacks X or Y and the reconciler returns a
  stream, that stream is the inner join, by index label, of the telemetry and the chosen
  position source projected on X, Y, Z (and Distance): the labels that survive are
  exactly those present in both streams, and every row of the result carries the values
  of one telemetry row and one position row with its label (nothing is padded or
  interpolated). Distance is taken from the position source if and only if that source
  has the column and the telemetry has not. Rows with the same label are paired in every
  combination, so the size is at most the product of the two sizes, and at most the
  smaller of the two when the labels within each stream are distinct.
\<close>

theorem inner_join_by_index:
  assumes "\<not> has_xy telemetry"
    and "reconcile l telemetry = (cp, Inr merged)"
  shows "\<exists>pos. choose_position l = (cp, Inr pos)
       \<and> merged = merge_inner telemetry (pos\<lparr>columns := pos_columns telemetry pos\<rparr>)
       \<and> set (map fst (rows merged)) = set (map fst (rows telemetry)) \<inter> set (map fst (rows pos))
       \<and> (\<forall>(i, m) \<in> set (rows merged). \<exists>t p.
             (i, t) \<in> set (rows telemetry) \<and> (i, p) \<in> set (rows pos)
             \<and> (\<forall>c \<in> set [''Speed'', ''Throttle'', ''Brake'', ''nGear'', ''RPM'', ''DRS'', ''Time''].
                   c \<in> set (columns telemetry) \<longrightarrow> m c = t c)
             \<and> (''X'' \<notin> set (columns telemetry) \<longrightarrow> m ''X'' = p ''X'')
             \<and> (''Y'' \<notin> set (columns telemetry) \<longrightarrow> m ''Y'' = p ''Y'')
             \<and> (''Distance'' \<in> set (columns telemetry) \<longrightarrow> m ''Distance'' = t ''Distance'')
             \<and> (''Distance'' \<notin> set (columns telemetry) \<and> ''Distance'' \<in> set (columns pos)
                   \<longrightarrow> m ''Distance'' = p ''Distance''))
       \<and> (distinct (map fst (rows telemetry)) \<and> distinct (map fst (rows pos)) \<longrightarrow>
             length (rows merged) \<le> min (length (rows telemetry)) (length (rows pos)))
       \<and> length (rows merged) \<le> length (rows telemetry) * length (rows pos)
       \<and> (''Distance'' \<in> set (pos_columns telemetry pos) \<longleftrightarrow>
             ''Distance'' \<in> set (columns pos) \<and> ''Distance'' \<notin> set (columns telemetry))"
proof -
  have r: "reconcile l telemetry =
       (fst (choose_position l), bind_exn (snd (choose_position l)) (merge_position telemetry))"
    by (rule reconcile_without_xy[OF assms(1)])
  from assms(2) r have f: "fst (choose_position l) = cp"
    and b: "bind_exn (snd (choose_position l)) (merge_position telemetry) = Inr merged" by simp_all
  from b obtain pos where sp: "snd (choose_position l) = Inr pos"
    and mp: "merge_position telemetry pos = Inr merged"
    unfolding bind_exn_Inr_iff by blast
  from f sp have cp: "choose_position l = (cp, Inr pos)" by (metis prod.collapse)
  define proj where "proj = pos\<lparr>columns := pos_columns telemetry pos\<rparr>"
  from merge_position_Inr[OF mp] have mg: "merged = merge_inner telemetry proj"
    by (simp add: proj_def)
  have rp: "rows proj = rows pos" by (simp add: proj_def)
  have labels: "set (map fst (rows merged)) = set (map fst (rows telemetry)) \<inter> set (map fst (rows pos))"
    unfolding mg merge_inner_labels rp ..
  have vals: "\<forall>(i, m) \<in> set (rows merged). \<exists>t p.
             (i, t) \<in> set (rows telemetry) \<and> (i, p) \<in> set (rows pos)
             \<and> (\<forall>c \<in> set [''Speed'', ''Throttle'', ''Brake'', ''nGear'', ''RPM'', ''DRS'', ''Time''].
                   c \<in> set (columns telemetry) \<longrightarrow> m c = t c)
             \<and> (''X'' \<notin> set (columns telemetry) \<longrightarrow> m ''X'' = p ''X'')
             \<and> (''Y'' \<notin> set (columns telemetry) \<longrightarrow> m ''Y'' = p ''Y'')
             \<and> (''Distance'' \<in> set (columns telemetry) \<longrightarrow> m ''Distance'' = t ''Distance'')
             \<and> (''Distance'' \<notin> set (columns telemetry) \<and> ''Distance'' \<in> set (columns pos)
                   \<longrightarrow> m ''Distance'' = p ''Distance'')"
  proof (rule ballI)
    fix im assume im: "im \<in> set (rows merged)"
    obtain i m where eq: "im = (i, m)" by (cases im)
    with im have "(i, m) \<in> set (rows (merge_inner telemetry proj))" by (simp add: mg)
    then obtain t p where t: "(i, t) \<in> set (rows telemetry)" and p: "(i, p) \<in> set (rows pos)"
      and m: "m = joined_row telemetry proj t p"
      unfolding merge_inner_rows_iff rp by blast
    have dyn: "\<forall>c \<in> set [''Speed'', ''Throttle'', ''Brake'', ''nGear'', ''RPM'', ''DRS'', ''Time''].
                   c \<in> set (columns telemetry) \<longrightarrow> m c = t c"
      unfolding m proj_def by (intro ballI impI) (rule joined_dynamics)
    have x: "''X'' \<notin> set (columns telemetry) \<longrightarrow> m ''X'' = p ''X''"
      unfolding m proj_def by (intro impI, rule joined_from_position) (simp_all add: pos_columns_def)
    have y: "''Y'' \<notin> set (columns telemetry) \<longrightarrow> m ''Y'' = p ''Y''"
      unfolding m proj_def by (intro impI, rule joined_from_position) (simp_all add: pos_columns_def)
    have d1: "''Distance'' \<in> set (columns telemetry) \<longrightarrow> m ''Distance'' = t ''Distance''"
      unfolding m proj_def by (intro impI) (rule joined_distance_left)
    have d2: "''Distance'' \<notin> set (columns telemetry) \<and> ''Distance'' \<in> set (columns pos)
                   \<longrightarrow> m ''Distance'' = p ''Distance''"
      unfolding m proj_def by (intro impI, rule joined_from_position) (simp_all add: pos_columns_def)
    have "\<exists>t p. (i, t) \<in> set (rows telemetry) \<and> (i, p) \<in> set (rows pos)
             \<and> (\<forall>c \<in> set [''Speed'', ''Throttle'', ''Brake'', ''nGear'', ''RPM'', ''DRS'', ''Time''].
                   c \<in> set (columns telemetry) \<longrightarrow> m c = t c)
             \<and> (''X'' \<notin> set (columns telemetry) \<longrightarrow> m ''X'' = p ''X'')
             \<and> (''Y'' \<notin> set (columns telemetry) \<longrightarrow> m ''Y'' = p ''Y'')
             \<and> (''Distance'' \<in> set (columns telemetry) \<longrightarrow> m ''Distance'' = t ''Distance'')
             \<and> (''Distance'' \<notin> set (columns telemetry) \<and> ''Distance'' \<in> set (columns pos)
                   \<longrightarrow> m ''Distance'' = p ''Distance'')"
      using t p dyn x y d1 d2 by (intro exI[of _ t] exI[of _ p] conjI)
    then show "case im of (i, m) \<Rightarrow> \<exists>t p. (i, t) \<in> set (rows telemetry) \<and> (i, p) \<in> set (rows pos)
             \<and> (\<forall>c \<in> set [''Speed'', ''Throttle'', ''Brake'', ''nGear'', ''RPM'', ''DRS'', ''Time''].
                   c \<in> set (columns telemetry) \<longrightarrow> m c = t c)
             \<and> (''X'' \<notin> set (columns telemetry) \<longrightarrow> m ''X'' = p ''X'')
             \<and> (''Y'' \<notin> set (columns telemetry) \<longrightarrow> m ''Y'' = p ''Y'')
             \<and> (''Distance'' \<in> set (columns telemetry) \<longrightarrow> m ''Distance'' = t ''Distance'')
             \<and> (''Distance'' \<notin> set (columns telemetry) \<and> ''Distance'' \<in> set (columns pos)
                   \<longrightarrow> m ''Distance'' = p ''Distance'')"
      unfolding eq prod.case .
  qed
  have size: "distinct (map fst (rows telemetry)) \<and> distinct (map fst (rows pos)) \<longrightarrow>
             length (rows merged) \<le> min (length (rows telemetry)) (length (rows pos))"
    unfolding mg using merge_inner_le_left[of proj telemetry] merge_inner_le_right[of telemetry proj]
    by (simp add: rp)
  have prod: "length (rows merged) \<le> length (rows telemetry) * length (rows pos)"
    unfolding mg using merge_inner_le_product[of telemetry proj] by (simp add: rp)
  have dist: "''Distance'' \<in> set (pos_columns telemetry pos) \<longleftrightarrow>
             ''Distance'' \<in> set (columns pos) \<and> ''Distance'' \<notin> set (columns telemetry)"
    by (simp add: pos_columns_def)
  show ?thesis
    apply (rule exI[of _ pos])
    apply (intro conjI)
          apply (rule cp)
         apply (simp add: mg proj_def)
        apply (rule labels)
       apply (rule vals)
      apply (rule size)
     apply (rule prod)
    apply (rule dist)
    done
qed

lemma ex_dup_no_xy: "\<not> has_xy ex_telemetry_dup"
  by (simp add: has_xy_def ex_telemetry_dup_def frame_of_def dynamics_def)

lemma ex_lap7_fields:
  "get_telemetry ex_lap7 = Inr ex_telemetry_dup" "get_pos_data ex_lap7 = Inr ex_pos_dup"
  by (simp_all add: ex_lap7_def ex_lap_def)

lemma ex_dup_reconcile:
  "reconcile ex_lap7 ex_telemetry_dup =
     ([GetPosData], Inr (merge_inner ex_telemetry_dup (ex_pos_dup\<lparr>columns := [''X'', ''Y'', ''Z'']\<rparr>)))"
proof -
  have y: "yields_xy ex_pos_dup"
    by (simp add: yields_xy_def has_xy_def df_empty_def ex_pos_dup_def frame_of_def)
  have c: "choose_position ex_lap7 = ([GetPosData], Inr ex_pos_dup)"
    using y by (simp add: choose_position_def ex_lap7_fields)
  have pc: "pos_columns ex_telemetry_dup ex_pos_dup = [''X'', ''Y'', ''Z'']"
    by (simp add: pos_columns_def ex_pos_dup_def frame_of_def)
  have sc: "select_columns ex_pos_dup [''X'', ''Y'', ''Z''] = Inr (ex_pos_dup\<lparr>columns := [''X'', ''Y'', ''Z'']\<rparr>)"
    by (simp add: select_columns_def ex_pos_dup_def frame_of_def)
  have m: "merge_position ex_telemetry_dup ex_pos_dup =
      Inr (merge_inner ex_telemetry_dup (ex_pos_dup\<lparr>columns := [''X'', ''Y'', ''Z'']\<rparr>))"
    by (simp add: merge_position_def pc sc)
  show ?thesis by (simp add: reconcile_without_xy[OF ex_dup_no_xy] c m)
qed

lemma ex_dup_rows:
  "map fst (rows ex_telemetry_dup) = [0, 0]" "map fst (rows ex_pos_dup) = [0, 0]"
  by (simp_all add: ex_telemetry_dup_def ex_pos_dup_def frame_of_def)

text \<open>
  The bound by the smaller size fails when a label repeats: two telemetry rows and two
  position rows, all with the label 0, join to four rows.
\<close>

theorem inner_join_by_index_counterexample:
  "map_sum id (\<lambda>merged. length (rows merged)) (snd (reconcile ex_lap7 ex_telemetry_dup)) = Inr 4
   \<and> get_telemetry ex_lap7 = Inr ex_telemetry_dup \<and> get_pos_data ex_lap7 = Inr ex_pos_dup
   \<and> \<not> has_xy ex_telemetry_dup
   \<and> min (length (rows ex_telemetry_dup)) (length (rows ex_pos_dup)) = 2"
proof -
  have a: "length (rows (merge_inner ex_telemetry_dup (ex_pos_dup\<lparr>columns := [''X'', ''Y'', ''Z'']\<rparr>))) = 4"
    by (simp add: length_merge_inner ex_telemetry_dup_def ex_pos_dup_def frame_of_def)
  have "length (map fst (rows ex_telemetry_dup)) = 2" "length (map fst (rows ex_pos_dup)) = 2"
    by (simp_all only: ex_dup_rows) simp_all
  then have b: "min (length (rows ex_telemetry_dup)) (length (rows ex_pos_dup)) = 2" by simp
  from a b ex_dup_no_xy ex_lap7_fields show ?thesis
    by (simp add: ex_dup_reconcile)
qed


theorem inner_join_by_index_witness:
  "reconcile ex_lap2 ex_telemetry_plain =
     ([GetPosData], Inr (merge_inner ex_telemetry_plain
        (ex_pos\<lparr>columns := [''X'', ''Y'', ''Z'', ''Distance'']\<rparr>)))
   \<and> set (map fst (rows (merge_inner ex_telemetry_plain
        (ex_pos\<lparr>columns := [''X'', ''Y'', ''Z'', ''Distance'']\<rparr>)))) = {1, 2}
   \<and> length (rows (merge_inner ex_telemetry_plain
        (ex_pos\<lparr>columns := [''X'', ''Y'', ''Z'', ''Distance'']\<rparr>))) \<le> 3"
proof -
  let ?m = "merge_inner ex_telemetry_plain (ex_pos\<lparr>columns := [''X'', ''Y'', ''Z'', ''Distance'']\<rparr>)"
  have c: "choose_position ex_lap2 = ([GetPosData], Inr ex_pos)"
    using ex_pos_yields by (simp add: choose_position_def ex_lap2_def ex_lap_def)
  have pc: "pos_columns ex_telemetry_plain ex_pos = [''X'', ''Y'', ''Z'', ''Distance'']"
    by (simp add: pos_columns_def ex_pos_def ex_telemetry_plain_def frame_of_def dynamics_def)
  have sc: "select_columns ex_pos [''X'', ''Y'', ''Z'', ''Distance'']
      = Inr (ex_pos\<lparr>columns := [''X'', ''Y'', ''Z'', ''Distance'']\<rparr>)"
    by (simp add: select_columns_def ex_pos_def frame_of_def)
  have m: "merge_position ex_telemetry_plain ex_pos = Inr ?m"
    by (simp add: merge_position_def pc sc)
  have r: "reconcile ex_lap2 ex_telemetry_plain = ([GetPosData], Inr ?m)"
    by (simp add: reconcile_without_xy[OF ex_plain_no_xy] c m)
  have lt: "map fst (rows ex_telemetry_plain) = [0, 1, 2]"
    by (simp add: ex_telemetry_plain_def frame_of_def)
  have lp: "map fst (rows ex_pos) = [1, 2, 3]"
    by (simp add: ex_pos_def frame_of_def)
  have d: "distinct (map fst (rows ex_telemetry_plain)) \<and> distinct (map fst (rows ex_pos))"
    by (simp add: lt lp)
  have t: "set (map fst (rows ex_telemetry_plain)) \<inter> set (map fst (rows ex_pos)) = {1, 2}"
    unfolding lt lp by auto
  have "length (map fst (rows ex_telemetry_plain)) = 3" "length (map fst (rows ex_pos)) = 3"
    by (simp_all only: lt lp) simp_all
  then have n: "min (length (rows ex_telemetry_plain)) (length (rows ex_pos)) = 3" by simp
  from inner_join_by_index[OF ex_plain_no_xy r]
  have "\<exists>pos. choose_position ex_lap2 = ([GetPosData], Inr pos)
      \<and> set (map fst (rows ?m)) = set (map fst (rows ex_telemetry_plain)) \<inter> set (map fst (rows pos))
      \<and> (distinct (map fst (rows ex_telemetry_plain)) \<and> distinct (map fst (rows pos)) \<longrightarrow>
             length (rows ?m) \<le> min (length (rows ex_telemetry_plain)) (length (rows pos)))"
    by (elim exE conjE, intro exI conjI) assumption+
  then obtain pos where "ex_pos = pos"
    and "set (map fst (rows ?m)) = set (map fst (rows ex_telemetry_plain)) \<inter> set (map fst (rows pos))"
    and "distinct (map fst (rows ex_telemetry_plain)) \<and> distinct (map fst (rows pos)) \<longrightarrow>
             length (rows ?m) \<le> min (length (rows ex_telemetry_plain)) (length (rows pos))"
    unfolding c by auto
  with d t n have "set (map fst (rows ?m)) = {1, 2}" "length (rows ?m) \<le> 3" by auto
  with r show ?thesis by simp
qed

section \<open>Normaliser\<close>

lemma required_columns_iff:
  "set required_columns \<subseteq> set cols \<longleftrightarrow>
     ''X'' \<in> set cols \<and> ''Y'' \<in> set cols \<and> ''Speed'' \<in> set cols \<and> ''Throttle'' \<in> set cols
     \<and> ''Brake'' \<in> set cols \<and> ''nGear'' \<in> set cols \<and> ''RPM'' \<in> set cols
     \<and> ''DRS'' \<in> set cols \<and> ''Time'' \<in> set cols"
  by (simp add: required_columns_def)

lemma required_from_dynamics:
  "has_xy df \<Longrightarrow> set dynamics \<subseteq> set (columns df) \<Longrightarrow> set required_columns \<subseteq> set (columns df)"
  by (simp add: required_columns_iff has_xy_def dynamics_def)

lemma telemetry_point_total:
  assumes "set required_columns \<subseteq> set cols"
  shows "telemetry_point cols xm xr ym yr r =
     Inr \<lparr>tp_x = fdiv (fsub (r ''X'') xm) xr,
          tp_y = fdiv (fsub (r ''Y'') ym) yr,
          speed = float_or_zero (r ''Speed''),
          throttle = float_or_zero (r ''Throttle''),
          brake = float_or_zero (r ''Brake''),
          gear = int_or_zero (r ''nGear''),
          rpm = float_or_zero (r ''RPM''),
          drs = int_or_zero (r ''DRS''),
          distance = distance_val cols r,
          time = float_or_zero (r ''Time'')\<rparr>"
  using assms unfolding required_columns_iff
  by (simp add: telemetry_point_def getitem_def)

lemma getitem_Inr: "getitem cols r c = Inr v \<Longrightarrow> c \<in> set cols \<and> v = r c"
  by (simp add: getitem_def split: if_splits)

lemma telemetry_point_Inr:
  assumes "telemetry_point cols xm xr ym yr r = Inr p"
  shows "set required_columns \<subseteq> set cols"
proof -
  from assms obtain X where x: "getitem cols r ''X'' = Inr X"
    and r1: "bind_exn (getitem cols r ''Y'') (\<lambda>Y.
     bind_exn (getitem cols r ''Speed'') (\<lambda>Speed.
     bind_exn (getitem cols r ''Throttle'') (\<lambda>Throttle.
     bind_exn (getitem cols r ''Brake'') (\<lambda>Brake.
     bind_exn (getitem cols r ''nGear'') (\<lambda>nGear.
     bind_exn (getitem cols r ''RPM'') (\<lambda>RPM.
     bind_exn (getitem cols r ''DRS'') (\<lambda>DRS.
     bind_exn (getitem cols r ''Time'') (\<lambda>Time.
       Inr \<lparr>tp_x = fdiv (fsub X xm) xr,
            tp_y = fdiv (fsub Y ym) yr,
            speed = float_or_zero Speed,
            throttle = float_or_zero Throttle,
            brake = float_or_zero Brake,
            gear = int_or_zero nGear,
            rpm = float_or_zero RPM,
            drs = int_or_zero DRS,
            distance = distance_val cols r,
            time = float_or_zero Time\<rparr>)))))))) = Inr p"
    unfolding telemetry_point_def bind_exn_Inr_iff by blast
  from r1 obtain Y where y: "getitem cols r ''Y'' = Inr Y" unfolding bind_exn_Inr_iff by blast
  with r1 obtain S where s: "getitem cols r ''Speed'' = Inr S" by (auto simp: bind_exn_Inr_iff)
  with r1 y obtain T where t: "getitem cols r ''Throttle'' = Inr T" by (auto simp: bind_exn_Inr_iff)
  with r1 y s obtain B where b: "getitem cols r ''Brake'' = Inr B" by (auto simp: bind_exn_Inr_iff)
  with r1 y s t obtain G where g: "getitem cols r ''nGear'' = Inr G" by (auto simp: bind_exn_Inr_iff)
  with r1 y s t b obtain R where rr: "getitem cols r ''RPM'' = Inr R" by (auto simp: bind_exn_Inr_iff)
  with r1 y s t b g obtain D where d: "getitem cols r ''DRS'' = Inr D" by (auto simp: bind_exn_Inr_iff)
  with r1 y s t b g rr obtain Ti where ti: "getitem cols r ''Time'' = Inr Ti" by (auto simp: bind_exn_Inr_iff)
  from x y s t b g rr d ti show ?thesis
    unfolding required_columns_iff by (auto dest: getitem_Inr)
qed



lemma np_min_total: "xs \<noteq> [] \<Longrightarrow> \<exists>v. np_min xs = Inr v"
  by (simp add: np_min_def)

lemma np_max_total: "xs \<noteq> [] \<Longrightarrow> \<exists>v. np_max xs = Inr v"
  by (simp add: np_max_def)

lemma coordinate_bounds_total:
  assumes "rows m \<noteq> []" "''X'' \<in> set (columns m)" "''Y'' \<in> set (columns m)"
  shows "coordinate_bounds m =
     Inr \<lparr>x_min = projr (np_min (map (\<lambda>ir. snd ir ''X'') (rows m))),
          x_max = projr (np_max (map (\<lambda>ir. snd ir ''X'') (rows m))),
          y_min = projr (np_min (map (\<lambda>ir. snd ir ''Y'') (rows m))),
          y_max = projr (np_max (map (\<lambda>ir. snd ir ''Y'') (rows m)))\<rparr>"
proof -
  let ?xs = "map (\<lambda>ir. snd ir ''X'') (rows m)" and ?ys = "map (\<lambda>ir. snd ir ''Y'') (rows m)"
  from assms(1) have ne: "?xs \<noteq> []" "?ys \<noteq> []" by simp_all
  from np_min_total[OF ne(1)] np_max_total[OF ne(1)] np_min_total[OF ne(2)] np_max_total[OF ne(2)]
  obtain a b c d where "np_min ?xs = Inr a" "np_max ?xs = Inr b" "np_min ?ys = Inr c" "np_max ?ys = Inr d"
    by blast
  then show ?thesis using assms(2,3)
    by (simp add: coordinate_bounds_def column_values_def)
qed

lemma normalize_total:
  assumes "\<not> df_empty m" "set required_columns \<subseteq> set (columns m)"
  shows "\<exists>b. coordinate_bounds m = Inr b \<and>
     normalize m = Inr (b, map (\<lambda>ir. projr (telemetry_point (columns m)
                          (x_min b) (axis_range (x_min b) (x_max b))
                          (y_min b) (axis_range (y_min b) (y_max b)) (snd ir))) (rows m))"
proof -
  from assms(1) have ne: "rows m \<noteq> []" by (simp add: df_empty_def)
  from assms(2) have xy: "''X'' \<in> set (columns m)" "''Y'' \<in> set (columns m)"
    unfolding required_columns_iff by simp_all
  from coordinate_bounds_total[OF ne xy] obtain b where b: "coordinate_bounds m = Inr b" by blast
  let ?f = "telemetry_point (columns m) (x_min b) (axis_range (x_min b) (x_max b))
                          (y_min b) (axis_range (y_min b) (y_max b))"
  have "points_loop ?f (rows m) [] = Inr ([] @ map (\<lambda>ir. projr (?f (snd ir))) (rows m))"
    by (rule points_loop_total) (simp add: telemetry_point_total[OF assms(2)])
  with b assms(1) show ?thesis by (simp add: normalize_def)
qed

lemma normalize_Inr:
  assumes "normalize m = Inr (b, pts)"
  shows "\<not> df_empty m \<and> coordinate_bounds m = Inr b \<and> length pts = length (rows m)
     \<and> (\<forall>k<length (rows m). telemetry_point (columns m)
                          (x_min b) (axis_range (x_min b) (x_max b))
                          (y_min b) (axis_range (y_min b) (y_max b)) (snd (rows m ! k)) = Inr (pts ! k))"
proof -
  from assms have ne: "\<not> df_empty m" by (auto simp: normalize_def split: if_splits)
  with assms obtain b' where b': "coordinate_bounds m = Inr b'"
    and l: "bind_exn (points_loop
                       (telemetry_point (columns m)
                          (x_min b') (axis_range (x_min b') (x_max b'))
                          (y_min b') (axis_range (y_min b') (y_max b')))
                       (rows m) [])
             (\<lambda>telemetry_points. Inr (b', telemetry_points)) = Inr (b, pts)"
    by (auto simp: normalize_def bind_exn_Inr_iff)
  from l have eq: "b' = b" and lp: "points_loop
                       (telemetry_point (columns m)
                          (x_min b) (axis_range (x_min b) (x_max b))
                          (y_min b) (axis_range (y_min b) (y_max b)))
                       (rows m) [] = Inr pts"
    by (auto simp: bind_exn_Inr_iff)
  from points_loop_Inr[OF lp] ne b' eq show ?thesis by auto
qed

lemma build_response_total:
  "normalize merged = Inr (b, pts) \<Longrightarrow>
     \<exists>resp. build_response s driver l merged = Inr resp \<and> resp_telemetry resp = pts
        \<and> x_bounds (resp_track_info resp) = (x_min b, x_max b)
        \<and> y_bounds (resp_track_info resp) = (y_min b, y_max b)"
  by (simp add: build_response_def)

lemma point_time:
  "telemetry_point cols xm xr ym yr r = Inr p \<Longrightarrow> time p = float_or_zero (r ''Time'')"
  using telemetry_point_total[OF telemetry_point_Inr, of cols xm xr ym yr r p xm xr ym yr r]
  by auto

text \<open>
  C7. For a telemetry stream that is not empty, has the columns X and Y and carries the
  dynamics fields, no position source is asked and nothing is merged: the reconciled
  stream is the telemetry itself, the handler returns a response, and the response has
  exactly one point per source row, the point at position \<open>k\<close> computed from the row at
  position \<open>k\<close>, so the times appear in the order of the source. In general, whenever the
  normaliser returns, it returns one point per row of its input, in the order of the rows.
\<close>

theorem telemetry_with_xy_is_kept:
  assumes "load_session fetch year rnd sess = (cs, Inr s)"
    and "choose_lap s driver lap_number = Inr l"
    and "get_telemetry l = Inr telemetry"
    and "\<not> df_empty telemetry"
    and "has_xy telemetry"
    and "set dynamics \<subseteq> set (columns telemetry)"
  shows "(\<exists>resp b. get_lap_data fetch year rnd sess driver lap_number = (cs @ [GetTelemetry], Inr resp)
          \<and> reconcile l telemetry = ([], Inr telemetry)
          \<and> coordinate_bounds telemetry = Inr b
          \<and> length (resp_telemetry resp) = length (rows telemetry)
          \<and> (\<forall>k<length (rows telemetry).
                telemetry_point (columns telemetry)
                  (x_min b) (axis_range (x_min b) (x_max b))
                  (y_min b) (axis_range (y_min b) (y_max b)) (snd (rows telemetry ! k))
                = Inr (resp_telemetry resp ! k))
          \<and> map time (resp_telemetry resp)
              = map (\<lambda>ir. float_or_zero (snd ir ''Time'')) (rows telemetry))
       \<and> (\<forall>m b pts. normalize m = Inr (b, pts) \<longrightarrow>
             length pts = length (rows m)
             \<and> (\<forall>k<length (rows m).
                   telemetry_point (columns m)
                     (x_min b) (axis_range (x_min b) (x_max b))
                     (y_min b) (axis_range (y_min b) (y_max b)) (snd (rows m ! k))
                   = Inr (pts ! k)))"
proof (rule conjI)
  have req: "set required_columns \<subseteq> set (columns telemetry)"
    by (rule required_from_dynamics[OF assms(5,6)])
  from normalize_total[OF assms(4) req] obtain b pts where
    b: "coordinate_bounds telemetry = Inr b" and n: "normalize telemetry = Inr (b, pts)" by blast
  from normalize_Inr[OF n] have len: "length pts = length (rows telemetry)"
    and each: "\<forall>k<length (rows telemetry). telemetry_point (columns telemetry)
                          (x_min b) (axis_range (x_min b) (x_max b))
                          (y_min b) (axis_range (y_min b) (y_max b)) (snd (rows telemetry ! k)) = Inr (pts ! k)"
    by simp_all
  from build_response_total[OF n, of s driver l] obtain resp where
    resp: "build_response s driver l telemetry = Inr resp" and rt: "resp_telemetry resp = pts" by blast
  have ft: "fetch_telemetry l = ([GetTelemetry], Inr telemetry)"
    using assms(3,4) by (simp add: fetch_telemetry_def)
  have rc: "reconcile l telemetry = ([], Inr telemetry)"
    using assms(5) by (simp add: reconcile_def)
  have g: "get_lap_data fetch year rnd sess driver lap_number = (cs @ [GetTelemetry], Inr resp)"
    by (simp add: get_lap_data_stages[OF assms(1,2) ft] rc resp)
  have tm: "map time pts = map (\<lambda>ir. float_or_zero (snd ir ''Time'')) (rows telemetry)"
  proof (rule nth_equalityI)
    show "length (map time pts) = length (map (\<lambda>ir. float_or_zero (snd ir ''Time'')) (rows telemetry))"
      using len by simp
    fix k assume "k < length (map time pts)"
    then have k: "k < length (rows telemetry)" using len by simp
    with each have "telemetry_point (columns telemetry)
                          (x_min b) (axis_range (x_min b) (x_max b))
                          (y_min b) (axis_range (y_min b) (y_max b)) (snd (rows telemetry ! k)) = Inr (pts ! k)"
      by blast
    from point_time[OF this] k len
    show "map time pts ! k = map (\<lambda>ir. float_or_zero (snd ir ''Time'')) (rows telemetry) ! k"
      by simp
  qed
  show "\<exists>resp b. get_lap_data fetch year rnd sess driver lap_number = (cs @ [GetTelemetry], Inr resp)
          \<and> reconcile l telemetry = ([], Inr telemetry)
          \<and> coordinate_bounds telemetry = Inr b
          \<and> length (resp_telemetry resp) = length (rows telemetry)
          \<and> (\<forall>k<length (rows telemetry).
                telemetry_point (columns telemetry)
                  (x_min b) (axis_range (x_min b) (x_max b))
                  (y_min b) (axis_range (y_min b) (y_max b)) (snd (rows telemetry ! k))
                = Inr (resp_telemetry resp ! k))
          \<and> map time (resp_telemetry resp)
              = map (\<lambda>ir. float_or_zero (snd ir ''Time'')) (rows telemetry)"
    using g rc b len each tm unfolding rt[symmetric]
    by (intro exI[of _ resp] exI[of _ b] conjI)
next
  show "\<forall>m b pts. normalize m = Inr (b, pts) \<longrightarrow>
             length pts = length (rows m)
             \<and> (\<forall>k<length (rows m).
                   telemetry_point (columns m)
                     (x_min b) (axis_range (x_min b) (x_max b))
                     (y_min b) (axis_range (y_min b) (y_max b)) (snd (rows m ! k))
                   = Inr (pts ! k))"
    using normalize_Inr by blast
qed

lemma ex_xy_facts:
  "\<not> df_empty ex_telemetry_xy" "has_xy ex_telemetry_xy" "set dynamics \<subseteq> set (columns ex_telemetry_xy)"
  "length (rows ex_telemetry_xy) = 3"
  by (simp_all add: df_empty_def has_xy_def ex_telemetry_xy_def frame_of_def dynamics_def)

lemma ex_xy_times:
  "map (\<lambda>ir. float_or_zero (snd ir ''Time'')) (rows ex_telemetry_xy) = [Some 0, Some (1 / 2), Some 0]"
  by (simp add: ex_telemetry_xy_def frame_of_def dynamics_def float_or_zero_def notna_def row_of_def
      del: not_None_eq)

theorem telemetry_with_xy_is_kept_witness:
  "\<exists>resp. get_lap_data (ex_provider [ex_lap0, ex_lap1] (Some ex_lap1)) 2023 1 ''Q'' ''VER'' None
       = ([SessionLoad full_load, GetTelemetry], Inr resp)
     \<and> length (resp_telemetry resp) = 3
     \<and> map time (resp_telemetry resp) = [Some 0, Some (1 / 2), Some 0]"
proof -
  have l: "choose_lap (ex_session [ex_lap0, ex_lap1] (Some ex_lap1)) ''VER'' None = Inr ex_lap1"
    by (simp add: choose_lap_def select_lap_def check_lap_time_def ex_lap0_def ex_lap1_def ex_lap_def)
  have t: "get_telemetry ex_lap1 = Inr ex_telemetry_xy" by (simp add: ex_lap1_def ex_lap_def)
  from telemetry_with_xy_is_kept[OF ex_load l t ex_xy_facts(1-3), of 2023 1 "''Q''"]
  obtain resp where "get_lap_data (ex_provider [ex_lap0, ex_lap1] (Some ex_lap1)) 2023 1 ''Q'' ''VER'' None
       = ([SessionLoad full_load] @ [GetTelemetry], Inr resp)"
    and "length (resp_telemetry resp) = length (rows ex_telemetry_xy)"
    and "map time (resp_telemetry resp) = map (\<lambda>ir. float_or_zero (snd ir ''Time'')) (rows ex_telemetry_xy)"
    by blast
  then show ?thesis by (simp add: ex_xy_facts(4) ex_xy_times)
qed

subsection \<open>Arithmetic within the finite range\<close>























text \<open>
  C6. The distance of a sample whose Distance value is NaN is NaN in the response, not
  0.0: the \<^verbatim>\<open>elif\<close> of lines 261 and 262 reads the value again where \<^verbatim>\<open>pd.notna\<close> has just
  rejected it. The first row of this telemetry has a NaN in its Distance column.
\<close>

theorem nan_distance_propagates:
  "map_sum id (\<lambda>resp. map distance (resp_telemetry resp))
     (snd (get_lap_data (ex_provider [ex_lap9] None) 2023 1 ''Q'' ''VER'' (Some 9)))
   = Inr [None, Some 40]"
proof -
  have l: "choose_lap (ex_session [ex_lap9] None) ''VER'' (Some 9) = Inr ex_lap9"
    using ex_choose_lap[of ex_lap9 None] by (simp add: ex_lap9_def ex_lap_def)
  have ne: "\<not> df_empty ex_telemetry_nan_distance"
    by (simp add: df_empty_def ex_telemetry_nan_distance_def frame_of_def dynamics_def)
  have xy: "has_xy ex_telemetry_nan_distance"
    by (simp add: has_xy_def ex_telemetry_nan_distance_def frame_of_def dynamics_def)
  have t: "fetch_telemetry ex_lap9 = ([GetTelemetry], Inr ex_telemetry_nan_distance)"
    using ne by (simp add: fetch_telemetry_def ex_lap9_def ex_lap_def)
  have r: "reconcile ex_lap9 ex_telemetry_nan_distance = ([], Inr ex_telemetry_nan_distance)"
    using xy by (simp add: reconcile_def)
  have n: "map_sum id (\<lambda>bp. map distance (snd bp)) (normalize ex_telemetry_nan_distance)
      = Inr [None, Some 40]"
    by (simp add: ex_telemetry_nan_distance_def frame_of_def row_of_def dynamics_def normalize_def
        df_empty_def coordinate_bounds_def column_values_def np_min_def np_max_def
        telemetry_point_def getitem_def distance_val_def notna_def del: not_None_eq)
  then obtain b pts where bp: "normalize ex_telemetry_nan_distance = Inr (b, pts)"
    and d: "map distance pts = [None, Some 40]"
    by (cases "normalize ex_telemetry_nan_distance") auto
  from build_response_total[OF bp, of "ex_session [ex_lap9] None" "''VER''" ex_lap9]
  obtain resp where "build_response (ex_session [ex_lap9] None) ''VER'' ex_lap9
      ex_telemetry_nan_distance = Inr resp" and "resp_telemetry resp = pts" by blast
  with d show ?thesis by (simp add: get_lap_data_stages[OF ex_load l t] r)
qed

text \<open>
  What the loop does for the other fields: speed, throttle, brake, rpm and time are the
  row's value, or 0.0 when it is NaN, and never NaN; gear and drs are the truncated value,
  or 0 when it is NaN; distance is 0.0 when the stream has no Distance column and the
  row's value, NaN included, when it has.
\<close>

theorem missing_values_default:
  assumes "telemetry_point cols xm xr ym yr r = Inr p"
  shows "speed p = (case r ''Speed'' of None \<Rightarrow> Some 0 | Some v \<Rightarrow> Some v)
       \<and> throttle p = (case r ''Throttle'' of None \<Rightarrow> Some 0 | Some v \<Rightarrow> Some v)
       \<and> brake p = (case r ''Brake'' of None \<Rightarrow> Some 0 | Some v \<Rightarrow> Some v)
       \<and> rpm p = (case r ''RPM'' of None \<Rightarrow> Some 0 | Some v \<Rightarrow> Some v)
       \<and> time p = (case r ''Time'' of None \<Rightarrow> Some 0 | Some v \<Rightarrow> Some v)
       \<and> gear p = (case r ''nGear'' of None \<Rightarrow> 0 | Some v \<Rightarrow> trunc v)
       \<and> drs p = (case r ''DRS'' of None \<Rightarrow> 0 | Some v \<Rightarrow> trunc v)
       \<and> distance p = (if ''Distance'' \<in> set cols then r ''Distance'' else Some 0)
       \<and> speed p \<noteq> None \<and> throttle p \<noteq> None \<and> brake p \<noteq> None \<and> rpm p \<noteq> None \<and> time p \<noteq> None"
  using telemetry_point_total[OF telemetry_point_Inr[OF assms], of xm xr ym yr r] assms
  by (auto simp: float_or_zero_def int_or_zero_def notna_def distance_val_def split: option.splits)


theorem missing_values_default_witness:
  "\<exists>p. telemetry_point (columns ex_telemetry_xy) (Some 10) (Finite 20) (Some 5) (Finite 1)
          (snd (rows ex_telemetry_xy ! 1)) = Inr p
     \<and> speed p = Some 0 \<and> gear p = 0 \<and> throttle p = Some 50 \<and> drs p = 1 \<and> distance p = Some 40"
proof -
  have req: "set required_columns \<subseteq> set (columns ex_telemetry_xy)"
    by (rule required_from_dynamics[OF ex_xy_facts(2,3)])
  from telemetry_point_total[OF req] obtain p where
    p: "telemetry_point (columns ex_telemetry_xy) (Some 10) (Finite 20) (Some 5) (Finite 1)
          (snd (rows ex_telemetry_xy ! 1)) = Inr p" by blast
  have r: "snd (rows ex_telemetry_xy ! 1) ''Speed'' = None"
    "snd (rows ex_telemetry_xy ! 1) ''nGear'' = None"
    "snd (rows ex_telemetry_xy ! 1) ''Throttle'' = Some 50"
    "snd (rows ex_telemetry_xy ! 1) ''DRS'' = Some 1"
    "snd (rows ex_telemetry_xy ! 1) ''Distance'' = Some 40"
    by (simp_all add: ex_telemetry_xy_def frame_of_def dynamics_def row_of_def del: not_None_eq)
  have dc: "''Distance'' \<in> set (columns ex_telemetry_xy)"
    by (simp add: ex_telemetry_xy_def frame_of_def dynamics_def)
  from missing_values_default[OF p]
  have "speed p = Some 0 \<and> gear p = 0 \<and> throttle p = Some 50 \<and> drs p = 1 \<and> distance p = Some 40"
    unfolding r by (simp add: trunc_def dc)
  with p show ?thesis by blast
qed

section \<open>The example session without a lap number\<close>

lemma ex_fastest_number:
  "map_sum id resp_lap_number (snd (get_lap_data (ex_provider [ex_lap0, ex_lap1] (Some ex_lap1)) 2023 1 ''Q'' ''VER'' None)) = Inr 1"
proof -
  have l: "choose_lap (ex_session [ex_lap0, ex_lap1] (Some ex_lap1)) ''VER'' None = Inr ex_lap1"
    by (simp add: choose_lap_def select_lap_def check_lap_time_def ex_lap0_def ex_lap1_def ex_lap_def)
  have t: "fetch_telemetry ex_lap1 = ([GetTelemetry], Inr ex_telemetry_xy)"
    using ex_xy_facts(1) by (simp add: fetch_telemetry_def ex_lap1_def ex_lap_def)
  have r: "reconcile ex_lap1 ex_telemetry_xy = ([], Inr ex_telemetry_xy)"
    using ex_xy_facts(2) by (simp add: reconcile_def)
  have req: "set required_columns \<subseteq> set (columns ex_telemetry_xy)"
    by (rule required_from_dynamics[OF ex_xy_facts(2,3)])
  from normalize_total[OF ex_xy_facts(1) req] obtain b pts where
    "normalize ex_telemetry_xy = Inr (b, pts)" by blast
  then have "build_response (ex_session [ex_lap0, ex_lap1] (Some ex_lap1)) ''VER'' ex_lap1 ex_telemetry_xy
      = Inr \<lparr>resp_driver = ''VER'',
            resp_lap_number = LapNumber ex_lap1,
            resp_lap_time = the (LapTime ex_lap1),
            resp_telemetry = pts,
            resp_track_info =
              \<lparr>track_name = EventName (event (ex_session [ex_lap0, ex_lap1] (Some ex_lap1))),
               track_location = Location (event (ex_session [ex_lap0, ex_lap1] (Some ex_lap1))),
               track_country = Country (event (ex_session [ex_lap0, ex_lap1] (Some ex_lap1))),
               x_bounds = (x_min b, x_max b),
               y_bounds = (y_min b, y_max b),
               total_distance = total_distance_of ex_telemetry_xy\<rparr>\<rparr>"
    by (simp add: build_response_def)
  moreover have "LapNumber ex_lap1 = 1" by (simp add: ex_lap1_def ex_lap_def)
  ultimately show ?thesis by (simp add: get_lap_data_stages[OF ex_load l t] r)
qed

theorem lap_number_zero_selects_fastest_witness:
  "map LapNumber (filter (\<lambda>l. LapNumber l = 0) [ex_lap0, ex_lap1]) = [0]
   \<and> map_sum id resp_lap_number
        (snd (get_lap_data (ex_provider [ex_lap0, ex_lap1] (Some ex_lap1)) 2023 1 ''Q'' ''VER'' (Some 0))) = Inr 1"
proof -
  have "get_lap_data (ex_provider [ex_lap0, ex_lap1] (Some ex_lap1)) 2023 1 ''Q'' ''VER'' (Some 0)
      = get_lap_data (ex_provider [ex_lap0, ex_lap1] (Some ex_lap1)) 2023 1 ''Q'' ''VER'' None"
    using lap_number_zero_selects_fastest [of "ex_provider [ex_lap0, ex_lap1] (Some ex_lap1)" 2023 1 "''Q''" "''VER''"]
    by blast
  moreover have "map LapNumber (filter (\<lambda>l. LapNumber l = 0) [ex_lap0, ex_lap1]) = [0]"
    by (simp add: ex_lap0_def ex_lap1_def ex_lap_def)
  ultimately show ?thesis using ex_fastest_number by simp
qed

end
